theory Spec2Isabelle
  imports Complex_Main
begin

section \<open>Numeric model\<close>

text \<open>
  The program computes on NumPy arrays of IEEE doubles.  A double is modelled as an exact
  real, one of the two infinities, or NaN.  The special values follow IEEE 754 as NumPy
  gives them under its default error state (a warning, never an exception): \<open>x / 0\<close> is an
  infinity for \<open>x \<noteq> 0\<close> and NaN for \<open>x = 0\<close>, \<open>0 * inf\<close> and \<open>inf - inf\<close> are NaN, NaN
  propagates through every operation and fails every comparison.  Rounding, overflow to
  infinity and the sign of zero are not modelled: finite values are exact reals.
\<close>

datatype fl = Fin real | PInf | NInf | NaN

fun is_fin :: "fl \<Rightarrow> bool" where
  "is_fin (Fin a) = True"
| "is_fin PInf = False"
| "is_fin NInf = False"
| "is_fin NaN = False"

fun fneg :: "fl \<Rightarrow> fl" where
  "fneg (Fin a) = Fin (- a)"
| "fneg PInf = NInf"
| "fneg NInf = PInf"
| "fneg NaN = NaN"

fun fadd :: "fl \<Rightarrow> fl \<Rightarrow> fl" where
  "fadd (Fin a) (Fin b) = Fin (a + b)"
| "fadd (Fin a) PInf = PInf"
| "fadd (Fin a) NInf = NInf"
| "fadd PInf (Fin b) = PInf"
| "fadd PInf PInf = PInf"
| "fadd PInf NInf = NaN"
| "fadd NInf (Fin b) = NInf"
| "fadd NInf PInf = NaN"
| "fadd NInf NInf = NInf"
| "fadd NaN y = NaN"
| "fadd x NaN = NaN"

definition fsub :: "fl \<Rightarrow> fl \<Rightarrow> fl" where
  "fsub x y = fadd x (fneg y)"

text \<open>An infinity times a finite value: NaN at zero, otherwise the sign rule.\<close>

definition inf_times :: "bool \<Rightarrow> real \<Rightarrow> fl" where
  "inf_times pos b = (if b = 0 then NaN else if (0 < b) = pos then PInf else NInf)"

fun fmul :: "fl \<Rightarrow> fl \<Rightarrow> fl" where
  "fmul (Fin a) (Fin b) = Fin (a * b)"
| "fmul (Fin a) PInf = inf_times True a"
| "fmul (Fin a) NInf = inf_times False a"
| "fmul PInf (Fin b) = inf_times True b"
| "fmul PInf PInf = PInf"
| "fmul PInf NInf = NInf"
| "fmul NInf (Fin b) = inf_times False b"
| "fmul NInf PInf = NInf"
| "fmul NInf NInf = PInf"
| "fmul NaN y = NaN"
| "fmul x NaN = NaN"

fun fdiv :: "fl \<Rightarrow> fl \<Rightarrow> fl" where
  "fdiv (Fin a) (Fin b) =
     (if b = 0 then (if a = 0 then NaN else if 0 < a then PInf else NInf) else Fin (a / b))"
| "fdiv (Fin a) PInf = Fin 0"
| "fdiv (Fin a) NInf = Fin 0"
| "fdiv PInf (Fin b) = (if 0 \<le> b then PInf else NInf)"
| "fdiv NInf (Fin b) = (if 0 \<le> b then NInf else PInf)"
| "fdiv PInf PInf = NaN"
| "fdiv PInf NInf = NaN"
| "fdiv NInf PInf = NaN"
| "fdiv NInf NInf = NaN"
| "fdiv NaN y = NaN"
| "fdiv x NaN = NaN"

fun fabs :: "fl \<Rightarrow> fl" where
  "fabs (Fin a) = Fin \<bar>a\<bar>"
| "fabs PInf = PInf"
| "fabs NInf = PInf"
| "fabs NaN = NaN"

fun fsqrt :: "fl \<Rightarrow> fl" where
  "fsqrt (Fin a) = (if a < 0 then NaN else Fin (sqrt a))"
| "fsqrt PInf = PInf"
| "fsqrt NInf = NaN"
| "fsqrt NaN = NaN"

fun flog :: "fl \<Rightarrow> fl" where
  "flog (Fin a) = (if a < 0 then NaN else if a = 0 then NInf else Fin (ln a))"
| "flog PInf = PInf"
| "flog NInf = NaN"
| "flog NaN = NaN"

fun fsin :: "fl \<Rightarrow> fl" where
  "fsin (Fin a) = Fin (sin a)"
| "fsin x = NaN"

fun fcos :: "fl \<Rightarrow> fl" where
  "fcos (Fin a) = Fin (cos a)"
| "fcos x = NaN"

fun farccos :: "fl \<Rightarrow> fl" where
  "farccos (Fin a) = (if - 1 \<le> a \<and> a \<le> 1 then Fin (arccos a) else NaN)"
| "farccos x = NaN"

fun farctan :: "fl \<Rightarrow> fl" where
  "farctan (Fin a) = Fin (arctan a)"
| "farctan PInf = Fin (pi / 2)"
| "farctan NInf = Fin (- (pi / 2))"
| "farctan NaN = NaN"

text \<open>
  \<open>x ** n\<close> and \<open>np.power(x, n)\<close> for a double \<open>x\<close> and a Python int \<open>n\<close>: C's \<open>pow\<close>,
  which is 1 at exponent 0 for every base, NaN included.
\<close>

definition fpower :: "fl \<Rightarrow> int \<Rightarrow> fl" where
  "fpower x n =
     (if n = 0 then Fin 1
      else case x of
        Fin a \<Rightarrow> (if 0 < n then Fin (a ^ nat n)
                  else if a = 0 then PInf else Fin (1 / a ^ nat (- n)))
      | PInf \<Rightarrow> (if 0 < n then PInf else Fin 0)
      | NInf \<Rightarrow> (if 0 < n then (if even n then PInf else NInf) else Fin 0)
      | NaN \<Rightarrow> NaN)"

fun flt :: "fl \<Rightarrow> fl \<Rightarrow> bool" where
  "flt (Fin a) (Fin b) = (a < b)"
| "flt (Fin a) PInf = True"
| "flt NInf (Fin b) = True"
| "flt NInf PInf = True"
| "flt x y = False"

fun fge :: "fl \<Rightarrow> fl \<Rightarrow> bool" where
  "fge (Fin a) (Fin b) = (b \<le> a)"
| "fge PInf (Fin b) = True"
| "fge (Fin a) NInf = True"
| "fge PInf NInf = True"
| "fge PInf PInf = True"
| "fge NInf NInf = True"
| "fge x y = False"

text \<open>A boolean array used as a factor: \<open>True\<close> is 1.0 and \<open>False\<close> is 0.0.\<close>

definition of_mask :: "bool \<Rightarrow> fl" where
  "of_mask b = Fin (if b then 1 else 0)"

section \<open>Arrays\<close>

text \<open>
  An \<open>N\<times>3\<close> array is a list of rows, an \<open>N\<times>1\<close> column or a flat array of length \<open>N\<close> a list
  of doubles, a \<open>3\<times>3\<close> matrix a triple of rows.
\<close>

type_synonym vec3 = "fl \<times> fl \<times> fl"
type_synonym mat3 = "vec3 \<times> vec3 \<times> vec3"

fun x_of :: "vec3 \<Rightarrow> fl" where "x_of (a, b, c) = a"
fun y_of :: "vec3 \<Rightarrow> fl" where "y_of (a, b, c) = b"
fun z_of :: "vec3 \<Rightarrow> fl" where "z_of (a, b, c) = c"

text \<open>Elementwise binary operation on two arrays of one shape.\<close>

definition ew2 :: "('a \<Rightarrow> 'b \<Rightarrow> 'c) \<Rightarrow> 'a list \<Rightarrow> 'b list \<Rightarrow> 'c list" where
  "ew2 f xs ys = map (\<lambda>(x, y). f x y) (zip xs ys)"

text \<open>An \<open>N\<times>3\<close> array combined with an \<open>N\<times>1\<close> column, broadcast along the row.\<close>

definition bc2 :: "(fl \<Rightarrow> fl \<Rightarrow> fl) \<Rightarrow> vec3 list \<Rightarrow> fl list \<Rightarrow> vec3 list" where
  "bc2 f vs cs = ew2 (\<lambda>v c. (f (x_of v) c, f (y_of v) c, f (z_of v) c)) vs cs"

text \<open>Two \<open>N\<times>3\<close> arrays combined elementwise.\<close>

definition vv2 :: "(fl \<Rightarrow> fl \<Rightarrow> fl) \<Rightarrow> vec3 list \<Rightarrow> vec3 list \<Rightarrow> vec3 list" where
  "vv2 f us vs = ew2 (\<lambda>u v. (f (x_of u) (x_of v), f (y_of u) (y_of v), f (z_of u) (z_of v))) us vs"

text \<open>\<open>np.vstack((a.T, b.T, c.T)).T\<close> for three \<open>N\<times>1\<close> columns: the rows \<open>(a_i, b_i, c_i)\<close>.\<close>

definition vstackT :: "fl list \<Rightarrow> fl list \<Rightarrow> fl list \<Rightarrow> vec3 list" where
  "vstackT as bs cs = map (\<lambda>(a, b, c). (a, b, c)) (zip as (zip bs cs))"

text \<open>\<open>np.matmul(v, [1,1,1])\<close> on one row: the sum of its components times 1.\<close>

definition dot_ones :: "vec3 \<Rightarrow> fl" where
  "dot_ones v = fadd (fadd (fmul (x_of v) (Fin 1)) (fmul (y_of v) (Fin 1))) (fmul (z_of v) (Fin 1))"

text \<open>\<open>LA.norm(a.T, axis=0)\<close> on one row: the root of the sum of squares.\<close>

definition norm3 :: "vec3 \<Rightarrow> fl" where
  "norm3 v = fsqrt (fadd (fadd (fmul (x_of v) (x_of v)) (fmul (y_of v) (y_of v))) (fmul (z_of v) (z_of v)))"

text \<open>\<open>np.matmul(v, m)\<close> on one row vector: \<open>out_j = \<Sum>_k v_k * m_kj\<close>.\<close>

fun vecmat :: "vec3 \<Rightarrow> mat3 \<Rightarrow> vec3" where
  "vecmat (a, b, c) ((m00, m01, m02), (m10, m11, m12), (m20, m21, m22)) =
     (fadd (fadd (fmul a m00) (fmul b m10)) (fmul c m20),
      fadd (fadd (fmul a m01) (fmul b m11)) (fmul c m21),
      fadd (fadd (fmul a m02) (fmul b m12)) (fmul c m22))"

section \<open>Jtoolbox\<close>

definition rotx :: "fl \<Rightarrow> mat3" where
  "rotx angle =
     (let cos = fcos angle; sin = fsin angle
      in ((Fin 1, Fin 0, Fin 0), (Fin 0, cos, sin), (Fin 0, fneg sin, cos)))"

definition roty :: "fl \<Rightarrow> mat3" where
  "roty angle =
     (let cos = fcos angle; sin = fsin angle
      in ((cos, Fin 0, fneg sin), (Fin 0, Fin 1, Fin 0), (sin, Fin 0, cos)))"

definition rotz :: "fl \<Rightarrow> mat3" where
  "rotz angle =
     (let cos = fcos angle; sin = fsin angle
      in ((cos, sin, Fin 0), (fneg sin, cos, Fin 0), (Fin 0, Fin 0, Fin 1)))"




text \<open>
  \<open>mand2(pos, iterations, power)\<close>.  The loop carries \<open>z\<close>, \<open>dr\<close> and \<open>r\<close>; \<open>theta\<close>, \<open>phi\<close>
  and \<open>zr\<close> are assigned afresh in every pass before they are read.  \<open>mand2_body\<close> is one
  pass of the loop on the whole batch, written array operation by array operation.
\<close>

definition bailout :: fl where
  "bailout = Fin (3 / 2)"

definition mand2_body ::
  "vec3 list \<Rightarrow> int \<Rightarrow> vec3 list \<times> fl list \<times> fl list \<Rightarrow> vec3 list \<times> fl list \<times> fl list" where
  "mand2_body pos pw s =
     (case s of (z, dr, r0) \<Rightarrow>
        let r = map norm3 z;
            zx = map x_of z;
            zy = map y_of z;
            zz = map z_of z;
            theta = map farccos (ew2 fdiv zz r);
            phi = map farctan (ew2 fdiv zy zx);
            drnew = map (\<lambda>t. fadd t (Fin 1))
                      (ew2 fmul (map (\<lambda>t. fmul t (Fin (of_int pw)))
                                   (map (\<lambda>t. fpower t (pw - 1)) r)) dr);
            dr = ew2 fadd (ew2 fmul drnew (map (\<lambda>t. of_mask (flt t bailout)) r))
                          (ew2 fmul dr (map (\<lambda>t. of_mask (fge t bailout)) r));
            zr = map (\<lambda>t. fpower t pw) r;
            theta = map (\<lambda>t. fmul t (Fin (of_int pw))) theta;
            phi = map (\<lambda>t. fmul t (Fin (of_int pw))) phi;
            znew = bc2 (\<lambda>c t. fmul t c)
                     (vstackT (ew2 fmul (map fsin theta) (map fcos phi))
                              (ew2 fmul (map fsin phi) (map fsin theta))
                              (map fcos theta)) zr;
            z = vv2 fadd (bc2 fmul (vv2 fadd znew pos) (map (\<lambda>t. of_mask (flt t bailout)) r))
                         (bc2 fmul z (map (\<lambda>t. of_mask (fge t bailout)) r))
        in (z, dr, r))"

text \<open>\<open>for jj in range(iterations)\<close>: the body, \<open>n\<close> times.\<close>

fun mand2_loop ::
  "vec3 list \<Rightarrow> int \<Rightarrow> nat \<Rightarrow> vec3 list \<times> fl list \<times> fl list \<Rightarrow> vec3 list \<times> fl list \<times> fl list" where
  "mand2_loop pos pw 0 s = s"
| "mand2_loop pos pw (Suc n) s = mand2_loop pos pw n (mand2_body pos pw s)"

definition mand2 :: "vec3 list \<Rightarrow> int \<Rightarrow> int \<Rightarrow> fl list" where
  "mand2 pos iterations pw =
     (case mand2_loop pos pw (nat iterations)
             (pos, replicate (length pos) (Fin 1), replicate (length pos) (Fin 0)) of
        (z, dr, r) \<Rightarrow>
          map fabs (ew2 fmul (map (\<lambda>t. fmul (Fin (1 / 2)) t) (map flog r)) (ew2 fdiv r dr)))"

subsection \<open>The estimator on one point\<close>

text \<open>
  The same computation for a single point: the polar form of \<open>z\<close>, the two candidate
  values of a pass, the masked blend of candidate and previous value, and the value
  returned after the last pass.
\<close>

definition polar :: "vec3 \<Rightarrow> fl \<times> fl \<times> fl" where
  "polar z = (norm3 z, farccos (fdiv (z_of z) (norm3 z)), farctan (fdiv (y_of z) (x_of z)))"

definition drnew_of :: "int \<Rightarrow> fl \<Rightarrow> fl \<Rightarrow> fl" where
  "drnew_of pw r dr = fadd (fmul (fmul (fpower r (pw - 1)) (Fin (of_int pw))) dr) (Fin 1)"

definition znew_of :: "int \<Rightarrow> fl \<times> fl \<times> fl \<Rightarrow> vec3" where
  "znew_of pw rtp =
     (case rtp of (r, theta0, phi0) \<Rightarrow>
        let zr = fpower r pw;
            theta = fmul theta0 (Fin (of_int pw));
            phi = fmul phi0 (Fin (of_int pw))
        in (fmul zr (fmul (fsin theta) (fcos phi)),
            fmul zr (fmul (fsin phi) (fsin theta)),
            fmul zr (fcos theta)))"

definition vadd :: "vec3 \<Rightarrow> vec3 \<Rightarrow> vec3" where
  "vadd u v = (fadd (x_of u) (x_of v), fadd (y_of u) (y_of v), fadd (z_of u) (z_of v))"

definition vscale :: "vec3 \<Rightarrow> fl \<Rightarrow> vec3" where
  "vscale v c = (fmul (x_of v) c, fmul (y_of v) c, fmul (z_of v) c)"

definition point_step :: "vec3 \<Rightarrow> int \<Rightarrow> vec3 \<times> fl \<times> fl \<Rightarrow> vec3 \<times> fl \<times> fl" where
  "point_step p pw s =
     (case s of (z, dr, r0) \<Rightarrow>
        let r = fst (polar z);
            lt = of_mask (flt r bailout);
            ge = of_mask (fge r bailout)
        in (vadd (vscale (vadd (znew_of pw (polar z)) p) lt) (vscale z ge),
            fadd (fmul (drnew_of pw r dr) lt) (fmul dr ge),
            r))"

definition distance_of :: "fl \<Rightarrow> fl \<Rightarrow> fl" where
  "distance_of r dr = fabs (fmul (fmul (Fin (1 / 2)) (flog r)) (fdiv r dr))"

definition mand2_point :: "vec3 \<Rightarrow> int \<Rightarrow> int \<Rightarrow> fl" where
  "mand2_point p iterations pw =
     (case (point_step p pw ^^ nat iterations) (p, Fin 1, Fin 0) of
        (z, dr, r) \<Rightarrow> distance_of r dr)"

section \<open>mandelclass\<close>

text \<open>
  A \<open>Mandelbulb\<close> object.  The attributes \<open>pos\<close>, \<open>elapsed_time\<close>, \<open>fname\<close> and \<open>dis\<close> do not
  exist until a method assigns them: \<open>None\<close> is the missing attribute.
\<close>

datatype py_error = ValueError | AttributeError

record mandelbulb =
  res :: int
  nmarch :: int
  order :: int
  power_m :: int
  proximity :: fl
  ele :: fl
  azi :: fl
  campos :: vec3
  pos :: "vec3 list option"
  elapsed_time :: "int option"
  fname :: "string option"
  dis :: "fl list option"

definition init :: "int \<Rightarrow> int \<Rightarrow> int \<Rightarrow> int \<Rightarrow> fl \<Rightarrow> fl \<Rightarrow> fl \<Rightarrow> mandelbulb" where
  "init r n ord pw prox e a =
     \<lparr>res = r, nmarch = n, order = ord, power_m = pw, proximity = prox, ele = e, azi = a,
      campos = (Fin 0, prox, Fin 0),
      pos = None, elapsed_time = None, fname = None, dis = None\<rparr>"

text \<open>
  \<open>np.linspace(start, stop, num)\<close>: a negative \<open>num\<close> raises \<open>ValueError\<close>; otherwise the
  samples are \<open>i * (delta / div) + start\<close> with \<open>div = num - 1\<close>, the last one set to \<open>stop\<close>.
  For \<open>num = 1\<close> the only sample is \<open>start\<close>.
\<close>

definition linspace :: "real \<Rightarrow> real \<Rightarrow> int \<Rightarrow> py_error + fl list" where
  "linspace start stop num =
     (if num < 0 then Inl ValueError
      else let n = nat num;
               y = (if 1 < n
                    then map (\<lambda>i. Fin (real i * ((stop - start) / real (n - 1)) + start)) [0..<n]
                    else map (\<lambda>i. Fin start) [0..<n])
           in Inr (if 1 < n then y[n - 1 := Fin stop] else y))"

text \<open>
  \<open>np.meshgrid(vx, vy, indexing="ij")\<close> reshaped to columns in row-major order:
  ray \<open>i * res + j\<close> has \<open>xx = vx[i]\<close> and \<open>yy = vy[j]\<close>.
\<close>

definition mesh_xx :: "fl list \<Rightarrow> fl list \<Rightarrow> fl list" where
  "mesh_xx xs ys = concat (map (\<lambda>x. replicate (length ys) x) xs)"

definition mesh_yy :: "fl list \<Rightarrow> fl list \<Rightarrow> fl list" where
  "mesh_yy xs ys = concat (replicate (length xs) ys)"

text \<open>
  One pass of the marching loop on the whole batch: the damped estimate, masked by the
  abort radius, then \<open>self.pos += dirs * abs(step)\<close>.
\<close>

definition march_step :: "vec3 list \<Rightarrow> int \<Rightarrow> int \<Rightarrow> vec3 list \<Rightarrow> vec3 list" where
  "march_step dirs ord pw p =
     (let step = map (\<lambda>t. fmul t (Fin (2 / 5))) (mand2 p ord pw);
          step = ew2 fmul step (map (\<lambda>t. of_mask (flt t (Fin 4))) (map norm3 p))
      in vv2 fadd p (bc2 fmul dirs (map fabs step)))"

text \<open>\<open>for ii in range(self.nmarch)\<close>.\<close>

fun march :: "vec3 list \<Rightarrow> int \<Rightarrow> int \<Rightarrow> nat \<Rightarrow> vec3 list \<Rightarrow> vec3 list" where
  "march dirs ord pw 0 p = p"
| "march dirs ord pw (Suc n) p = march dirs ord pw n (march_step dirs ord pw p)"

text \<open>Python's \<open>round(x)\<close>: to the nearest integer, a tie to the even one.\<close>

definition py_round :: "real \<Rightarrow> int" where
  "py_round x =
     (let f = \<lfloor>x\<rfloor>; d = x - of_int f
      in if d < 1 / 2 then f else if 1 / 2 < d then f + 1 else if even f then f else f + 1)"

text \<open>
  The ray directions that \<open>visualize\<close> builds before marching: the image-plane grid at
  unit depth, normalised row by row (\<open>grid_dirs\<close>), then turned by the three rotations.
\<close>

definition grid_dirs :: "int \<Rightarrow> py_error + vec3 list" where
  "grid_dirs r =
     (case linspace (- (1 / 2)) (1 / 2) r of
        Inl e \<Rightarrow> Inl e
      | Inr vx \<Rightarrow>
          (case linspace (- (1 / 2)) (1 / 2) r of
             Inl e \<Rightarrow> Inl e
           | Inr vy \<Rightarrow>
               let xx = mesh_xx vx vy;
                   yy = mesh_yy vx vy;
                   zz = replicate (nat (r ^ 2)) (Fin 1);
                   dirs = vstackT xx yy zz
               in Inr (bc2 fdiv dirs (map norm3 dirs))))"

definition ray_dirs :: "mandelbulb \<Rightarrow> py_error + vec3 list" where
  "ray_dirs s =
     (case grid_dirs (res s) of
        Inl e \<Rightarrow> Inl e
      | Inr dirs \<Rightarrow>
          let dirs = map (\<lambda>v. vecmat v (rotx (Fin (pi / 2)))) dirs;
              dirs = map (\<lambda>v. vecmat v (rotx (ele s))) dirs;
              dirs = map (\<lambda>v. vecmat v (rotz (azi s))) dirs
          in Inr dirs)"

text \<open>The common origin of the rays: the local \<open>campos\<close> of \<open>visualize\<close>.\<close>

definition ray_origin :: "mandelbulb \<Rightarrow> vec3" where
  "ray_origin s =
     (let campos = vecmat (campos s) (rotx (ele s));
          campos = vecmat campos (rotz (azi s))
      in campos)"

text \<open>
  \<open>visualize\<close>.  The two clock readings and the formatted time stamp are inputs.
  A negative \<open>res\<close> raises in the first \<open>linspace\<close>, before any attribute is assigned.
\<close>

definition visualize :: "mandelbulb \<Rightarrow> real \<Rightarrow> real \<Rightarrow> string \<Rightarrow> py_error + mandelbulb" where
  "visualize s t_start t_end stamp =
     (case ray_dirs s of
        Inl e \<Rightarrow> Inl e
      | Inr dirs \<Rightarrow>
          let campos = ray_origin s;
              ones = replicate (nat (res s ^ 2)) (Fin 1);
              p = vstackT (map (\<lambda>t. fmul (x_of campos) t) ones)
                          (map (\<lambda>t. fmul (y_of campos) t) ones)
                          (map (\<lambda>t. fmul (z_of campos) t) ones);
              p = march dirs (order s) (power_m s) (nat (nmarch s)) p
          in Inr (s\<lparr>pos := Some p,
                    elapsed_time := Some (py_round (t_end - t_start)),
                    fname := Some (stamp @ ''Mandelbulb.png'')\<rparr>))"

text \<open>
  The first two statements of \<open>render\<close>: the distance map \<open>self.dis\<close> and its reshape to
  \<open>res \<times> res\<close>.  Reading \<open>self.pos\<close> before \<open>visualize\<close> has run raises \<open>AttributeError\<close>;
  \<open>np.reshape\<close> raises \<open>ValueError\<close> unless the array has \<open>res * res\<close> elements and
  \<open>res\<close> is not negative.
\<close>

definition reshape2 :: "'a list \<Rightarrow> nat \<Rightarrow> 'a list list" where
  "reshape2 xs n = map (\<lambda>i. take n (drop (i * n) xs)) [0..<n]"

definition depth_of :: "vec3 \<Rightarrow> vec3 \<Rightarrow> fl" where
  "depth_of c p =
     (let d = (fsub (x_of p) (x_of c), fsub (y_of p) (y_of c), fsub (z_of p) (z_of c));
          q = (fmul (x_of d) (x_of d), fmul (y_of d) (y_of d), fmul (z_of d) (z_of d))
      in fsqrt (dot_ones q))"

definition render_depth :: "mandelbulb \<Rightarrow> py_error + mandelbulb \<times> fl list list" where
  "render_depth s =
     (case pos s of
        None \<Rightarrow> Inl AttributeError
      | Some p \<Rightarrow>
          let d = map (depth_of (campos s)) p
          in if 0 \<le> res s \<and> int (length d) = res s * res s
             then Inr (s\<lparr>dis := Some d\<rparr>, reshape2 d (nat (res s)))
             else Inl ValueError)"

section \<open>Per-ray readings\<close>

text \<open>One pass of the marching loop on a single ray with direction \<open>d\<close> at position \<open>p\<close>.\<close>

definition ray_step :: "vec3 \<Rightarrow> int \<Rightarrow> int \<Rightarrow> vec3 \<Rightarrow> vec3" where
  "ray_step d ord pw p =
     (let step = fmul (mand2_point p ord pw) (Fin (2 / 5));
          step = fmul step (of_mask (flt (norm3 p) (Fin 4)))
      in vadd p (vscale d (fabs step)))"

definition fin3 :: "vec3 \<Rightarrow> bool" where
  "fin3 v = (is_fin (x_of v) \<and> is_fin (y_of v) \<and> is_fin (z_of v))"

text \<open>A batch state whose three arrays are given row by row by one function.\<close>

definition lift3 :: "('a \<Rightarrow> vec3 \<times> fl \<times> fl) \<Rightarrow> 'a list \<Rightarrow> vec3 list \<times> fl list \<times> fl list" where
  "lift3 s xs =
     (map (\<lambda>x. fst (s x)) xs, map (\<lambda>x. fst (snd (s x))) xs, map (\<lambda>x. snd (snd (s x))) xs)"

section \<open>Auxiliary lemmas\<close>

subsection \<open>Array lemmas\<close>


lemma ew2_map_map: "ew2 f (map g xs) (map h xs) = map (\<lambda>x. f (g x) (h x)) xs"
  by (simp add: ew2_def zip_map_map zip_same_conv_map)

lemma length_ew2: "length (ew2 f xs ys) = min (length xs) (length ys)"
  by (simp add: ew2_def)

subsection \<open>The sphere estimator: lemmas\<close>


lemma ew2_map_l: "ew2 f (map g xs) xs = map (\<lambda>x. f (g x) x) xs"
  using ew2_map_map [of f g xs "\<lambda>x. x"] by simp

lemma bc2_map_map:
  "bc2 f (map g xs) (map h xs) = map (\<lambda>x. (f (x_of (g x)) (h x), f (y_of (g x)) (h x), f (z_of (g x)) (h x))) xs"
  by (simp add: bc2_def ew2_map_map)

lemma vv2_map_map:
  "vv2 f (map g xs) (map h xs) =
     map (\<lambda>x. (f (x_of (g x)) (x_of (h x)), f (y_of (g x)) (y_of (h x)), f (z_of (g x)) (z_of (h x)))) xs"
  by (simp add: vv2_def ew2_map_map)

lemma vstackT_map:
  "vstackT (map a xs) (map b xs) (map c xs) = map (\<lambda>x. (a x, b x, c x)) xs"
  by (simp add: vstackT_def zip_map_map zip_same_conv_map)

subsection \<open>The estimator, row by row\<close>

lemma mand2_body_lift3:
  "mand2_body (map g xs) pw (lift3 s xs) = lift3 (\<lambda>x. point_step (g x) pw (s x)) xs"
  by (simp add: mand2_body_def lift3_def Let_def ew2_map_map bc2_map_map vv2_map_map
      vstackT_map point_step_def polar_def znew_of_def drnew_of_def vadd_def vscale_def
      split: prod.splits)

lemma mand2_loop_lift3:
  "mand2_loop (map g xs) pw n (lift3 s xs) = lift3 (\<lambda>x. (point_step (g x) pw ^^ n) (s x)) xs"
proof (induction n arbitrary: s)
  case 0
  show ?case by simp
next
  case (Suc n)
  show ?case
    by (simp add: mand2_body_lift3 Suc.IH funpow_swap1)
qed

lemma mand2_pointwise: "mand2 ps n pw = map (\<lambda>p. mand2_point p n pw) ps"
proof -
  have init: "(ps, replicate (length ps) (Fin 1), replicate (length ps) (Fin 0))
              = lift3 (\<lambda>p. (p, Fin 1, Fin 0)) ps"
    by (simp add: lift3_def map_replicate_const)
  have "mand2_loop ps pw k (lift3 (\<lambda>p. (p, Fin 1, Fin 0)) ps)
        = lift3 (\<lambda>p. (point_step p pw ^^ k) (p, Fin 1, Fin 0)) ps" for k
    using mand2_loop_lift3 [of "\<lambda>p. p" ps pw k "\<lambda>p. (p, Fin 1, Fin 0)"] by simp
  then show ?thesis
    unfolding mand2_def init
    by (simp add: lift3_def ew2_map_map mand2_point_def distance_of_def split: prod.splits)
qed

subsection \<open>The marcher, ray by ray\<close>

lemma march_step_zip:
  "march_step (map snd xs) ord pw (map fst xs) = map (\<lambda>x. ray_step (snd x) ord pw (fst x)) xs"
  by (simp add: march_step_def mand2_pointwise Let_def ew2_map_map bc2_map_map vv2_map_map
      ray_step_def vadd_def vscale_def o_def)

lemma march_zip:
  "march (map snd xs) ord pw n (map fst xs)
     = map (\<lambda>x. (ray_step (snd x) ord pw ^^ n) (fst x)) xs"
proof (induction n arbitrary: xs)
  case 0
  show ?case by simp
next
  case (Suc n)
  let ?ys = "map (\<lambda>x. (ray_step (snd x) ord pw (fst x), snd x)) xs"
  have "march (map snd xs) ord pw (Suc n) (map fst xs)
          = march (map snd ?ys) ord pw n (map fst ?ys)"
    by (simp add: march_step_zip o_def)
  also have "\<dots> = map (\<lambda>x. (ray_step (snd x) ord pw ^^ n) (fst x)) ?ys"
    by (rule Suc.IH)
  finally show ?case
    by (simp add: o_def funpow_swap1)
qed

lemma march_nth:
  assumes "length dirs = length p" and "i < length p"
  shows "march dirs ord pw n p ! i = (ray_step (dirs ! i) ord pw ^^ n) (p ! i)"
proof -
  have e: "map snd (zip p dirs) = dirs" "map fst (zip p dirs) = p"
    using assms(1) by simp_all
  have "march dirs ord pw n p = map (\<lambda>x. (ray_step (snd x) ord pw ^^ n) (fst x)) (zip p dirs)"
    using march_zip [of "zip p dirs" ord pw n] unfolding e .
  then show ?thesis
    using assms by simp
qed

lemma march_funpow: "march dirs ord pw n p = (march_step dirs ord pw ^^ n) p"
  by (induction n arbitrary: p) (simp_all add: funpow_swap1)

subsection \<open>Arithmetic with special values\<close>

lemma fadd_zero_right: "fadd x (Fin 0) = x"
  by (cases x) simp_all

lemma fmul_one_right: "fmul x (Fin 1) = x"
  by (cases x) (simp_all add: inf_times_def)

lemma fge_not_flt: "fge a b \<Longrightarrow> \<not> flt a b"
  by (cases a; cases b) simp_all

lemma ray_step_frozen:
  assumes "\<not> flt (norm3 p) (Fin 4)" and "is_fin (mand2_point p ord pw)" and "fin3 d"
  shows "ray_step d ord pw p = p"
proof -
  obtain m where m: "mand2_point p ord pw = Fin m"
    using assms(2) by (cases "mand2_point p ord pw") simp_all
  obtain a b c where d: "d = (Fin a, Fin b, Fin c)"
    using assms(3) by (cases d; cases "x_of d"; cases "y_of d"; cases "z_of d") (simp_all add: fin3_def)
  show ?thesis
    using assms(1) m by (cases p) (simp add: ray_step_def d of_mask_def vadd_def vscale_def fadd_zero_right)
qed

lemma length_march:
  "length dirs = length p \<Longrightarrow> length (march dirs ord pw n p) = length p"
proof -
  assume a: "length dirs = length p"
  have e: "map snd (zip p dirs) = dirs" "map fst (zip p dirs) = p"
    using a by simp_all
  have "march dirs ord pw n p = map (\<lambda>x. (ray_step (snd x) ord pw ^^ n) (fst x)) (zip p dirs)"
    using march_zip [of "zip p dirs" ord pw n] unfolding e .
  then show ?thesis using a by simp
qed

lemma funpow_fixed: "f x = x \<Longrightarrow> (f ^^ n) x = x"
  by (induction n) simp_all

lemma sqrt_25: "sqrt 25 = 5"
  using real_sqrt_abs [of 5] by simp

subsection \<open>Concrete evaluations\<close>

lemma norm3_axis_y: "norm3 (Fin 0, Fin 5, Fin 0) = Fin 5"
  by (simp add: norm3_def sqrt_25)

lemma norm3_axis_z: "norm3 (Fin 0, Fin 0, Fin 5) = Fin 5"
  by (simp add: norm3_def sqrt_25)

lemma point_step_y5:
  "point_step (Fin 0, Fin 5, Fin 0) 8 ((Fin 0, Fin 5, Fin 0), Fin 1, r0)
     = ((Fin 0, Fin 5, Fin 0), Fin 1, Fin 5)"
  by (simp add: point_step_def polar_def norm3_axis_y bailout_def of_mask_def znew_of_def
      drnew_of_def fpower_def vadd_def vscale_def Let_def)

lemma mand2_point_y5: "mand2_point (Fin 0, Fin 5, Fin 0) 2 8 = Fin (\<bar>ln 5\<bar> * 5 / 2)"
  by (simp add: mand2_point_def eval_nat_numeral point_step_y5 distance_of_def)

lemma point_step_z5:
  "point_step (Fin 0, Fin 0, Fin 5) 8 ((Fin 0, Fin 0, Fin 5), Fin 1, Fin 0)
     = ((NaN, NaN, Fin 5), Fin 1, Fin 5)"
  by (simp add: point_step_def polar_def norm3_axis_z bailout_def of_mask_def znew_of_def
      drnew_of_def fpower_def vadd_def vscale_def Let_def)

lemma point_step_nan_row:
  "point_step p 8 ((NaN, NaN, c), dr, r0) = ((NaN, NaN, NaN), NaN, NaN)"
  by (simp add: point_step_def polar_def norm3_def bailout_def of_mask_def znew_of_def
      drnew_of_def fpower_def vadd_def vscale_def Let_def)

lemma mand2_point_z5: "mand2_point (Fin 0, Fin 0, Fin 5) 2 8 = NaN"
  by (simp add: mand2_point_def eval_nat_numeral point_step_z5 point_step_nan_row distance_of_def)

subsection \<open>The ray grid\<close>

lemma linspace_neg: "num < 0 \<Longrightarrow> linspace a b num = Inl ValueError"
  by (simp add: linspace_def)

lemma linspace_ok:
  assumes "0 \<le> num"
  shows "\<exists>ys. linspace a b num = Inr ys \<and> length ys = nat num \<and> (\<forall>y \<in> set ys. is_fin y)"
proof -
  have upd: "\<forall>y \<in> set (ys[k := Fin c]). is_fin y" if "\<forall>y \<in> set ys. is_fin y" for ys k c
    using that set_update_subset_insert [of ys k "Fin c"] by auto
  let ?y = "map (\<lambda>i. Fin (real i * ((b - a) / real (nat num - 1)) + a)) [0..<nat num]"
  have "\<forall>y \<in> set ?y. is_fin y" by auto
  then have "\<forall>y \<in> set (?y[nat num - 1 := Fin b]). is_fin y"
    by (rule upd)
  moreover have "\<forall>y \<in> set (map (\<lambda>i. Fin a) [0..<nat num]). is_fin y" by auto
  ultimately show ?thesis
    using assms unfolding linspace_def Let_def by (simp del: set_upt)
qed

lemma length_mesh_xx: "length (mesh_xx xs ys) = length xs * length ys"
  by (simp add: mesh_xx_def length_concat o_def sum_list_triv)

lemma length_mesh_yy: "length (mesh_yy xs ys) = length xs * length ys"
  by (simp add: mesh_yy_def length_concat sum_list_replicate)

lemma set_mesh_xx: "set (mesh_xx xs ys) \<subseteq> set xs"
  by (auto simp: mesh_xx_def)

lemma set_mesh_yy: "set (mesh_yy xs ys) \<subseteq> set ys"
  by (auto simp: mesh_yy_def)

lemma length_vstackT: "length (vstackT as bs cs) = min (length as) (min (length bs) (length cs))"
  by (simp add: vstackT_def)

lemma set_vstackT:
  assumes "v \<in> set (vstackT as bs cs)"
  shows "x_of v \<in> set as \<and> y_of v \<in> set bs \<and> z_of v \<in> set cs"
proof -
  obtain a b c where v: "v = (a, b, c)" by (cases v)
  have "(\<lambda>(a, b, c). (a, b, c)) = (\<lambda>t :: fl \<times> fl \<times> fl. t)" by auto
  then have "vstackT as bs cs = zip as (zip bs cs)"
    by (simp add: vstackT_def)
  then have m: "(a, b, c) \<in> set (zip as (zip bs cs))"
    using assms v by simp
  have "a \<in> set as" using m by (rule set_zip_leftD)
  moreover have bc: "(b, c) \<in> set (zip bs cs)" using m by (rule set_zip_rightD)
  moreover have "b \<in> set bs" using bc by (rule set_zip_leftD)
  moreover have "c \<in> set cs" using bc by (rule set_zip_rightD)
  ultimately show ?thesis by (simp add: v)
qed

lemma bc2_map_r:
  "bc2 f vs (map h vs) = map (\<lambda>v. (f (x_of v) (h v), f (y_of v) (h v), f (z_of v) (h v))) vs"
  using bc2_map_map [of f "\<lambda>v. v" vs h] by simp

lemma unit_row_finite:
  assumes "is_fin a" and "is_fin b"
  shows "fin3 (fdiv a (norm3 (a, b, Fin 1)), fdiv b (norm3 (a, b, Fin 1)), fdiv (Fin 1) (norm3 (a, b, Fin 1)))"
proof -
  obtain x y where ab: "a = Fin x" "b = Fin y"
    using assms by (cases a; cases b) simp_all
  have pos: "0 < x * x + y * y + 1"
    by (metis add_nonneg_nonneg add_pos_nonneg zero_le_square zero_less_one add.commute)
  then have "\<not> x * x + y * y + 1 < 0" and "sqrt (x * x + y * y + 1) \<noteq> 0"
    by simp_all
  then show ?thesis
    by (simp add: ab norm3_def fin3_def)
qed

lemma nat_square: "0 \<le> r \<Longrightarrow> nat (r ^ 2) = nat r * nat r" for r :: int
  by (simp add: power2_eq_square nat_mult_distrib)

lemma grid_dirs_neg: "r < 0 \<Longrightarrow> grid_dirs r = Inl ValueError"
  by (simp add: grid_dirs_def linspace_neg)

lemma grid_dirs_ok:
  assumes "0 \<le> r"
  shows "\<exists>ds. grid_dirs r = Inr ds \<and> length ds = nat r * nat r \<and> (\<forall>d \<in> set ds. fin3 d)"
proof -
  obtain ys where ys: "linspace (- (1 / 2)) (1 / 2) r = Inr ys" "length ys = nat r"
      "\<forall>y \<in> set ys. is_fin y"
    using linspace_ok [OF assms] by blast
  let ?g = "vstackT (mesh_xx ys ys) (mesh_yy ys ys) (replicate (nat (r ^ 2)) (Fin 1))"
  let ?u = "\<lambda>v. (fdiv (x_of v) (norm3 v), fdiv (y_of v) (norm3 v), fdiv (z_of v) (norm3 v))"
  have g: "grid_dirs r = Inr (map ?u ?g)"
    by (simp add: grid_dirs_def ys(1) Let_def bc2_map_r)
  have len: "length ?g = nat r * nat r"
    by (simp add: length_vstackT length_mesh_xx length_mesh_yy ys(2) nat_square [OF assms])
  have "fin3 (?u v)" if "v \<in> set ?g" for v
  proof -
    from set_vstackT [OF that] have "x_of v \<in> set ys" "y_of v \<in> set ys" "z_of v = Fin 1"
      using set_mesh_xx [of ys ys] set_mesh_yy [of ys ys] by auto
    then have "is_fin (x_of v)" "is_fin (y_of v)" "z_of v = Fin 1"
      using ys(3) by auto
    then show ?thesis
      using unit_row_finite [of "x_of v" "y_of v"] by (cases v) simp
  qed
  then show ?thesis
    using g len by auto
qed

subsection \<open>Finite rows stay finite under rotation\<close>

lemma is_fin_conv: "is_fin x = (\<exists>a. x = Fin a)"
  by (cases x) simp_all

lemma fin3_conv: "fin3 v = (\<exists>a b c. v = (Fin a, Fin b, Fin c))"
  by (cases v) (auto simp: fin3_def is_fin_conv)

lemma vecmat_finite:
  assumes "fin3 v" and "fin3 r0" and "fin3 r1" and "fin3 r2"
  shows "fin3 (vecmat v (r0, r1, r2))"
proof -
  obtain a b c where v: "v = (Fin a, Fin b, Fin c)"
    using assms(1) unfolding fin3_conv by blast
  obtain a0 b0 c0 where r0: "r0 = (Fin a0, Fin b0, Fin c0)"
    using assms(2) unfolding fin3_conv by blast
  obtain a1 b1 c1 where r1: "r1 = (Fin a1, Fin b1, Fin c1)"
    using assms(3) unfolding fin3_conv by blast
  obtain a2 b2 c2 where r2: "r2 = (Fin a2, Fin b2, Fin c2)"
    using assms(4) unfolding fin3_conv by blast
  show ?thesis by (simp add: v r0 r1 r2 fin3_def)
qed

lemma rotx_finite: "fin3 v \<Longrightarrow> fin3 (vecmat v (rotx (Fin t)))"
  unfolding rotx_def Let_def by (rule vecmat_finite) (simp_all add: fin3_def)

lemma rotz_finite: "fin3 v \<Longrightarrow> fin3 (vecmat v (rotz (Fin t)))"
  unfolding rotz_def Let_def by (rule vecmat_finite) (simp_all add: fin3_def)

subsection \<open>What \<open>visualize\<close> computes\<close>

lemma ray_dirs_neg: "res s < 0 \<Longrightarrow> ray_dirs s = Inl ValueError"
  by (simp add: ray_dirs_def grid_dirs_neg)

lemma ray_dirs_ok:
  assumes "0 \<le> res s"
  shows "\<exists>ds. ray_dirs s = Inr ds \<and> length ds = nat (res s) * nat (res s)"
  using grid_dirs_ok [OF assms] by (auto simp: ray_dirs_def Let_def)

lemma ray_dirs_nonneg: "ray_dirs s = Inr ds \<Longrightarrow> 0 \<le> res s"
  using ray_dirs_neg [of s] by (cases "0 \<le> res s") simp_all

lemma ray_dirs_length: "ray_dirs s = Inr ds \<Longrightarrow> length ds = nat (res s) * nat (res s)"
  using ray_dirs_ok [of s] ray_dirs_nonneg [of s ds] by auto

lemma ray_dirs_finite:
  assumes "ray_dirs s = Inr ds" and "is_fin (ele s)" and "is_fin (azi s)" and "d \<in> set ds"
  shows "fin3 d"
proof -
  obtain e a where ea: "ele s = Fin e" "azi s = Fin a"
    using assms(2,3) by (cases "ele s"; cases "azi s") simp_all
  obtain gs where gs: "grid_dirs (res s) = Inr gs" "\<forall>g \<in> set gs. fin3 g"
    using grid_dirs_ok [OF ray_dirs_nonneg [OF assms(1)]] by blast
  have "ds = map (\<lambda>v. vecmat (vecmat (vecmat v (rotx (Fin (pi / 2)))) (rotx (Fin e))) (rotz (Fin a))) gs"
    using assms(1) by (auto simp: ray_dirs_def gs(1) ea Let_def o_def)
  then obtain g where g: "g \<in> set gs"
      "d = vecmat (vecmat (vecmat g (rotx (Fin (pi / 2)))) (rotx (Fin e))) (rotz (Fin a))"
    using assms(4) by auto
  have "fin3 g" using gs(2) g(1) by blast
  then have "fin3 (vecmat g (rotx (Fin (pi / 2))))" by (rule rotx_finite)
  then have "fin3 (vecmat (vecmat g (rotx (Fin (pi / 2)))) (rotx (Fin e)))" by (rule rotx_finite)
  then show ?thesis unfolding g(2) by (rule rotz_finite)
qed

lemma vstackT_replicate:
  "vstackT (replicate n a) (replicate n b) (replicate n c) = replicate n (a, b, c)"
  by (simp add: vstackT_def)

lemma visualize_neg: "res s < 0 \<Longrightarrow> visualize s t0 t1 stamp = Inl ValueError"
  by (simp add: visualize_def ray_dirs_neg)

lemma visualize_eq:
  assumes "ray_dirs s = Inr ds"
  shows "visualize s t0 t1 stamp =
           Inr (s\<lparr>pos := Some (march ds (order s) (power_m s) (nat (nmarch s))
                                  (replicate (length ds) (ray_origin s))),
                  elapsed_time := Some (py_round (t1 - t0)),
                  fname := Some (stamp @ ''Mandelbulb.png'')\<rparr>)"
proof -
  have n: "nat ((res s)\<^sup>2) = length ds"
    using ray_dirs_length [OF assms] ray_dirs_nonneg [OF assms] by (simp add: nat_square)
  show ?thesis
    by (cases "ray_origin s")
      (simp add: visualize_def assms Let_def n vstackT_replicate fmul_one_right)
qed

lemma visualize_ok:
  "0 \<le> res s \<Longrightarrow> \<exists>s'. visualize s t0 t1 stamp = Inr s'"
  using ray_dirs_ok [of s] visualize_eq [of s] by blast

subsection \<open>The marching loop: lemmas\<close>

lemma march_step_nth:
  assumes "length dirs = length p" and "i < length p"
  shows "march_step dirs ord pw p ! i = ray_step (dirs ! i) ord pw (p ! i)"
  using march_nth [OF assms, of ord pw "Suc 0"] by simp

lemma mand2_nth: "i < length p \<Longrightarrow> mand2 p ord pw ! i = mand2_point (p ! i) ord pw"
  by (simp add: mand2_pointwise)

lemma ray_step_active:
  assumes "flt (norm3 p) (Fin 4)"
  shows "ray_step d ord pw p = vadd p (vscale d (fabs (fmul (mand2_point p ord pw) (Fin (2 / 5)))))"
  using assms by (simp add: ray_step_def of_mask_def fmul_one_right)

lemma sqrt_9: "sqrt 9 = 3"
  using real_sqrt_abs [of 3] by simp

lemma sqrt_36: "sqrt 36 = 6"
  using real_sqrt_abs [of 6] by simp

lemma norm3_y3: "norm3 (Fin 0, Fin 3, Fin 0) = Fin 3"
  by (simp add: norm3_def sqrt_9)

lemma norm3_z6: "norm3 (Fin 0, Fin 0, Fin (- 6)) = Fin 6"
  by (simp add: norm3_def sqrt_36)

lemma point_step_z6:
  "point_step (Fin 0, Fin 0, Fin (- 6)) 8 ((Fin 0, Fin 0, Fin (- 6)), Fin 1, Fin 0)
     = ((NaN, NaN, Fin (- 6)), Fin 1, Fin 6)"
  by (simp add: point_step_def polar_def norm3_z6 bailout_def of_mask_def znew_of_def
      drnew_of_def fpower_def vadd_def vscale_def Let_def)

lemma mand2_point_z6: "mand2_point (Fin 0, Fin 0, Fin (- 6)) 3 8 = NaN"
  by (simp add: mand2_point_def eval_nat_numeral point_step_z6 point_step_nan_row distance_of_def)

subsection \<open>The bailout blend: lemmas\<close>

lemma fadd_zero_left: "fadd (Fin 0) x = x"
  by (cases x) simp_all

lemma flt_not_fge: "flt a b \<Longrightarrow> \<not> fge a b"
  by (cases a; cases b) simp_all

lemma vscale_one: "vscale v (Fin 1) = v"
  by (cases v) (simp add: vscale_def fmul_one_right)

lemma vscale_zero: "fin3 v \<Longrightarrow> vscale v (Fin 0) = (Fin 0, Fin 0, Fin 0)"
  by (auto simp: fin3_conv vscale_def)

lemma vadd_zero_right: "vadd v (Fin 0, Fin 0, Fin 0) = v"
  by (cases v) (simp add: vadd_def fadd_zero_right)

lemma vadd_zero_left: "vadd (Fin 0, Fin 0, Fin 0) v = v"
  by (cases v) (simp add: vadd_def fadd_zero_left)

lemma point_step_radius: "snd (snd (point_step p pw (z, dr, r0))) = norm3 z"
  by (simp add: point_step_def polar_def Let_def)

lemma point_step_below:
  assumes "flt (norm3 z) bailout" and "is_fin dr" and "fin3 z"
  shows "point_step p pw (z, dr, r0)
           = (vadd (znew_of pw (polar z)) p, drnew_of pw (norm3 z) dr, norm3 z)"
proof -
  obtain d where d: "dr = Fin d" using assms(2) by (auto simp: is_fin_conv)
  have m: "of_mask (flt (norm3 z) bailout) = Fin 1" "of_mask (fge (norm3 z) bailout) = Fin 0"
    using assms(1) flt_not_fge [OF assms(1)] by (simp_all add: of_mask_def)
  show ?thesis
    by (simp add: point_step_def polar_def Let_def m vscale_one vscale_zero [OF assms(3)]
        vadd_zero_right fmul_one_right d fadd_zero_right)
qed

lemma point_step_above:
  assumes "fge (norm3 z) bailout" and "is_fin (drnew_of pw (norm3 z) dr)"
    and "fin3 (vadd (znew_of pw (polar z)) p)"
  shows "point_step p pw (z, dr, r0) = (z, dr, norm3 z)"
proof -
  obtain d where d: "drnew_of pw (norm3 z) dr = Fin d" using assms(2) by (auto simp: is_fin_conv)
  have m: "of_mask (flt (norm3 z) bailout) = Fin 0" "of_mask (fge (norm3 z) bailout) = Fin 1"
    using assms(1) fge_not_flt [OF assms(1)] by (simp_all add: of_mask_def)
  have "vscale (vadd (znew_of pw (polar z)) p) (Fin 0) = (Fin 0, Fin 0, Fin 0)"
    using assms(3) by (rule vscale_zero)
  then show ?thesis
    using d by (simp add: point_step_def polar_def Let_def m vscale_one vadd_zero_left
        fmul_one_right fadd_zero_left)
qed

lemma point_step_above_funpow:
  assumes "fge (norm3 z) bailout" and "is_fin (drnew_of pw (norm3 z) dr)"
    and "fin3 (vadd (znew_of pw (polar z)) p)"
  shows "(point_step p pw ^^ Suc n) (z, dr, r0) = (z, dr, norm3 z)"
proof (induction n)
  case 0
  show ?case using point_step_above [OF assms] by simp
next
  case (Suc n)
  have "(point_step p pw ^^ Suc (Suc n)) (z, dr, r0) = point_step p pw (z, dr, norm3 z)"
    using Suc.IH by simp
  then show ?case using point_step_above [OF assms] by simp
qed

lemma mand2_loop_nth:
  assumes "length z = length ps" and "length dr = length ps" and "length r0 = length ps"
    and "i < length ps"
  shows "(fst (mand2_loop ps pw n (z, dr, r0)) ! i,
          fst (snd (mand2_loop ps pw n (z, dr, r0))) ! i,
          snd (snd (mand2_loop ps pw n (z, dr, r0))) ! i)
         = (point_step (ps ! i) pw ^^ n) (z ! i, dr ! i, r0 ! i)"
proof -
  let ?xs = "[0..<length ps]"
  let ?s = "\<lambda>j. (z ! j, dr ! j, r0 ! j)"
  have ps: "map ((!) ps) ?xs = ps" by (rule map_nth)
  have st: "lift3 ?s ?xs = (z, dr, r0)"
    using assms(1,2,3) map_nth [of z] map_nth [of dr] map_nth [of r0] by (simp add: lift3_def)
  have "mand2_loop ps pw n (z, dr, r0)
          = lift3 (\<lambda>j. (point_step (ps ! j) pw ^^ n) (?s j)) ?xs"
    using mand2_loop_lift3 [of "(!) ps" ?xs pw n ?s] unfolding ps st .
  then show ?thesis
    using assms(4) by (simp add: lift3_def)
qed

lemma norm3_y1: "norm3 (Fin 0, Fin 1, Fin 0) = Fin 1"
  by (simp add: norm3_def)

lemma sqrt_4: "sqrt 4 = 2"
  using real_sqrt_abs [of 2] by simp

lemma norm3_z2: "norm3 (Fin 0, Fin 0, Fin 2) = Fin 2"
  by (simp add: norm3_def sqrt_4)

subsection \<open>The depth map: lemmas\<close>

lemma reshape2_nth:
  assumes "length xs = n * n" and "i < n" and "j < n"
  shows "reshape2 xs n ! i ! j = xs ! (i * n + j)"
proof -
  have "Suc i * n \<le> n * n"
    using assms(2) by (intro mult_le_mono1) simp
  then have "i * n + n \<le> n * n"
    by simp
  then have "i * n + j < length xs"
    using assms(1,3) by linarith
  then show ?thesis
    using assms(2,3) by (simp add: reshape2_def)
qed

lemma render_depth_eq:
  assumes "pos s = Some p" and "0 \<le> res s" and "int (length p) = res s * res s"
  shows "render_depth s =
           Inr (s\<lparr>dis := Some (map (depth_of (campos s)) p)\<rparr>,
                reshape2 (map (depth_of (campos s)) p) (nat (res s)))"
  using assms by (simp add: render_depth_def Let_def)

lemma march_all_frozen:
  assumes "\<forall>d \<in> set dirs. fin3 d" and "\<not> flt (norm3 q) (Fin 4)"
    and "is_fin (mand2_point q ord pw)"
  shows "march dirs ord pw k (replicate (length dirs) q) = replicate (length dirs) q"
proof (rule nth_equalityI)
  show "length (march dirs ord pw k (replicate (length dirs) q)) = length (replicate (length dirs) q)"
    by (simp add: length_march)
next
  fix i
  assume "i < length (march dirs ord pw k (replicate (length dirs) q))"
  then have i: "i < length dirs" by (simp add: length_march)
  have "fin3 (dirs ! i)" using assms(1) i by simp
  then have "ray_step (dirs ! i) ord pw q = q"
    using assms(2,3) by (simp add: ray_step_frozen)
  then have "(ray_step (dirs ! i) ord pw ^^ k) q = q"
    by (rule funpow_fixed)
  then show "march dirs ord pw k (replicate (length dirs) q) ! i = replicate (length dirs) q ! i"
    using i by (simp add: march_nth)
qed

lemma sqrt_100: "sqrt 100 = 10"
  using real_sqrt_abs [of 10] by simp

lemma norm3_ym5: "norm3 (Fin 0, Fin (- 5), Fin 0) = Fin 5"
  by (simp add: norm3_def sqrt_25)

lemma mand2_point_ym5: "is_fin (mand2_point (Fin 0, Fin (- 5), Fin 0) 6 8)"
proof -
  let ?q = "(Fin 0, Fin (- 5), Fin 0)"
  have "(point_step ?q 8 ^^ Suc 5) (?q, Fin 1, Fin 0) = (?q, Fin 1, norm3 ?q)"
    by (rule point_step_above_funpow)
      (simp_all add: norm3_ym5 bailout_def drnew_of_def fpower_def znew_of_def polar_def
        vadd_def fin3_def Let_def)
  moreover have "nat 6 = Suc 5" by simp
  ultimately show ?thesis
    by (simp add: mand2_point_def norm3_ym5 distance_of_def del: funpow.simps)
qed

lemma reshape2_3: "reshape2 (replicate 9 x) 3 = replicate 3 (replicate 3 x)"
  by (simp add: reshape2_def eval_nat_numeral upt_rec)

subsection \<open>The orientation of the camera: lemmas\<close>

lemma ray_dirs_grid:
  assumes "ray_dirs s = Inr dirs"
  shows "\<exists>grid. grid_dirs (res s) = Inr grid \<and> length grid = length dirs
     \<and> dirs = map (\<lambda>v. vecmat (vecmat (vecmat v (rotx (Fin (pi / 2)))) (rotx (ele s))) (rotz (azi s))) grid"
proof -
  obtain grid where g: "grid_dirs (res s) = Inr grid"
    using grid_dirs_ok [OF ray_dirs_nonneg [OF assms]] by blast
  have "dirs = map (\<lambda>v. vecmat (vecmat (vecmat v (rotx (Fin (pi / 2)))) (rotx (ele s))) (rotz (azi s))) grid"
    using assms by (auto simp: ray_dirs_def g Let_def o_def)
  then show ?thesis using g by simp
qed

subsection \<open>Estimates that are not finite: lemmas\<close>

lemma fadd_NaN_right: "fadd x NaN = NaN"
  by (cases x) simp_all

lemma fmul_NaN_right: "fmul x NaN = NaN"
  by (cases x) simp_all

lemma nonfin_scale: "\<not> is_fin e \<Longrightarrow> \<not> is_fin (fmul e (Fin (2 / 5)))"
  by (cases e) (simp_all add: inf_times_def)

lemma nonfin_mask: "\<not> is_fin e \<Longrightarrow> \<not> is_fin (fmul e (of_mask b))"
  by (cases e) (simp_all add: inf_times_def of_mask_def)

lemma nonfin_abs: "\<not> is_fin e \<Longrightarrow> \<not> is_fin (fabs e)"
  by (cases e) simp_all

lemma nonfin_times: "\<not> is_fin e \<Longrightarrow> \<not> is_fin (fmul d e)"
  by (cases e; cases d) (simp_all add: inf_times_def)

lemma nonfin_plus: "\<not> is_fin e \<Longrightarrow> \<not> is_fin (fadd x e)"
  by (cases e; cases x) simp_all

lemma ray_step_nonfin:
  assumes "\<not> is_fin (mand2_point p ord pw)"
  shows "\<not> is_fin (x_of (ray_step d ord pw p)) \<and> \<not> is_fin (y_of (ray_step d ord pw p))
         \<and> \<not> is_fin (z_of (ray_step d ord pw p))"
proof -
  let ?t = "fabs (fmul (fmul (mand2_point p ord pw) (Fin (2 / 5))) (of_mask (flt (norm3 p) (Fin 4))))"
  have "\<not> is_fin ?t"
    using assms by (intro nonfin_abs nonfin_mask nonfin_scale)
  then have "\<not> is_fin (fadd x (fmul c ?t))" for x c
    by (intro nonfin_plus nonfin_times)
  then show ?thesis
    by (cases p; cases d) (simp add: ray_step_def vadd_def vscale_def Let_def)
qed

lemma ray_step_nan:
  assumes "mand2_point p ord pw = NaN \<or> \<not> is_fin (mand2_point p ord pw) \<and> \<not> flt (norm3 p) (Fin 4)"
  shows "ray_step d ord pw p = (NaN, NaN, NaN)"
proof -
  have "fmul (fmul (mand2_point p ord pw) (Fin (2 / 5))) (of_mask (flt (norm3 p) (Fin 4))) = NaN"
    using assms by (cases "mand2_point p ord pw") (auto simp: of_mask_def inf_times_def)
  then show ?thesis
    by (cases p; cases d) (simp add: ray_step_def vadd_def vscale_def Let_def fmul_NaN_right fadd_NaN_right)
qed

lemma point_step_origin:
  "point_step (Fin 0, Fin 0, Fin 0) 8 ((Fin 0, Fin 0, Fin 0), Fin 1, Fin 0)
     = ((NaN, NaN, NaN), Fin 1, Fin 0)"
  by (simp add: point_step_def polar_def norm3_def bailout_def of_mask_def znew_of_def
      drnew_of_def fpower_def vadd_def vscale_def Let_def)

lemma mand2_point_origin: "mand2_point (Fin 0, Fin 0, Fin 0) 6 8 = NaN"
  by (simp add: mand2_point_def eval_nat_numeral point_step_origin point_step_nan_row
      distance_of_def)

subsection \<open>Configurations that are not checked: lemmas\<close>

lemma visualize_batch:
  assumes "0 \<le> res s"
  shows "\<exists>s' p. visualize s t0 t1 stamp = Inr s' \<and> pos s' = Some p
           \<and> length p = nat (res s) * nat (res s)"
proof -
  obtain ds where d: "ray_dirs s = Inr ds" "length ds = nat (res s) * nat (res s)"
    using ray_dirs_ok [OF assms] by blast
  show ?thesis
    unfolding visualize_eq [OF d(1)] using d(2) by (simp add: length_march)
qed

lemma mand2_point_no_iterations: "mand2_point q 0 pw = NaN"
  by (simp add: mand2_point_def distance_of_def inf_times_def)

subsection \<open>Further concrete evaluations\<close>

lemma single_ray_dirs:
  assumes "res s = 1"
  shows "\<exists>d. ray_dirs s = Inr [d]"
proof -
  have "0 \<le> res s" using assms by simp
  then obtain ds where d: "ray_dirs s = Inr ds" "length ds = nat (res s) * nat (res s)"
    using ray_dirs_ok by blast
  have "length ds = 1" using d(2) assms by simp
  then obtain x where "ds = [x]" by (cases ds) auto
  then show ?thesis using d(1) by blast
qed

lemma point_step_z2:
  "point_step (Fin 0, Fin 0, Fin 2) 8 ((Fin 0, Fin 0, Fin 2), Fin 1, Fin 0)
     = ((NaN, NaN, Fin 2), Fin 1, Fin 2)"
  by (simp add: point_step_def polar_def norm3_z2 bailout_def of_mask_def znew_of_def
      drnew_of_def fpower_def vadd_def vscale_def Let_def)

lemma mand2_point_z2: "mand2_point (Fin 0, Fin 0, Fin 2) 2 8 = NaN"
  by (simp add: mand2_point_def eval_nat_numeral point_step_z2 point_step_nan_row distance_of_def)

section \<open>Properties of the program\<close>

subsection \<open>The freezing of rays beyond the abort radius\<close>

text \<open>
  C1 (as amended).  If at marching iteration \<open>k\<close> the norm of a ray's position is at
  least 4, the estimator's value for that ray is finite and the ray's direction is finite,
  then the ray's position at every later iteration \<open>k + n\<close> equals its position at
  iteration \<open>k\<close>.  The loop does apply an update to such a ray, \<open>pos += dirs * abs(step * 0)\<close>;
  it adds zero exactly when the estimate is finite.
\<close>

theorem frozen_ray_stays:
  assumes "length dirs = length p0" and "i < length p0"
    and "fge (norm3 (march dirs ord pw k p0 ! i)) (Fin 4)"
    and "is_fin (mand2 (march dirs ord pw k p0) ord pw ! i)"
    and "fin3 (dirs ! i)"
  shows "march dirs ord pw (k + n) p0 ! i = march dirs ord pw k p0 ! i"
proof -
  let ?f = "ray_step (dirs ! i) ord pw"
  let ?q = "(?f ^^ k) (p0 ! i)"
  have q: "march dirs ord pw k p0 ! i = ?q"
    using assms(1,2) by (rule march_nth)
  have len: "i < length (march dirs ord pw k p0)"
    using assms(1,2) by (simp add: length_march)
  have est: "mand2 (march dirs ord pw k p0) ord pw ! i = mand2_point ?q ord pw"
    using len q by (simp add: mand2_pointwise)
  have "?f ?q = ?q"
  proof (rule ray_step_frozen)
    show "\<not> flt (norm3 ?q) (Fin 4)"
      using assms(3) q by (simp add: fge_not_flt)
    show "is_fin (mand2_point ?q ord pw)"
      using assms(4) est by simp
    show "fin3 (dirs ! i)" by (rule assms(5))
  qed
  then have "(?f ^^ n) ?q = ?q"
    by (rule funpow_fixed)
  moreover have "march dirs ord pw (k + n) p0 ! i = (?f ^^ n) ?q"
  proof -
    have "(?f ^^ (k + n)) (p0 ! i) = (?f ^^ n) ?q"
      using funpow_add [of n k ?f] by (simp add: add.commute)
    then show ?thesis
      using march_nth [OF assms(1,2), of ord pw "k + n"] by simp
  qed
  ultimately show ?thesis
    using q by simp
qed

theorem frozen_ray_stays_witness:
  "fge (norm3 (march [(Fin 0, Fin (- 1), Fin 0)] 2 8 0 [(Fin 0, Fin 5, Fin 0)] ! 0)) (Fin 4)
   \<and> is_fin (mand2 (march [(Fin 0, Fin (- 1), Fin 0)] 2 8 0 [(Fin 0, Fin 5, Fin 0)]) 2 8 ! 0)
   \<and> fin3 ([(Fin 0, Fin (- 1), Fin 0)] ! 0)
   \<and> march [(Fin 0, Fin (- 1), Fin 0)] 2 8 (0 + 3) [(Fin 0, Fin 5, Fin 0)] ! 0 = (Fin 0, Fin 5, Fin 0)"
proof -
  let ?d = "[(Fin 0, Fin (- 1), Fin 0)]" and ?p = "[(Fin 0, Fin 5, Fin 0)]"
  have h1: "length ?d = length ?p" and h2: "0 < length ?p" by simp_all
  have h3: "fge (norm3 (march ?d 2 8 0 ?p ! 0)) (Fin 4)"
    by (simp add: norm3_axis_y)
  have h4: "is_fin (mand2 (march ?d 2 8 0 ?p) 2 8 ! 0)"
    by (simp add: mand2_pointwise mand2_point_y5)
  have h5: "fin3 (?d ! 0)" by (simp add: fin3_def)
  from frozen_ray_stays [OF h1 h2 h3 h4 h5, of 3] h3 h4 h5 show ?thesis by simp
qed

text \<open>
  The claim as stated, without the condition on the estimate, fails on the vertical axis:
  at \<open>(0, 0, 5)\<close> the azimuth is \<open>arctan(0/0)\<close>, the estimate after two passes is NaN, and
  \<open>NaN * 0\<close> is NaN, so the position of norm 5 becomes NaN in the next iteration.  It also
  fails for a whole run: with \<open>res = 1\<close>, \<open>order = 0\<close> and \<open>proximity = 5\<close> the ray starts at
  \<open>(0, 5, 0)\<close>, the estimate without a pass is NaN, and one marching iteration makes the
  position NaN.
\<close>

theorem frozen_ray_changes:
  "fge (norm3 (Fin 0, Fin 0, Fin 5)) (Fin 4)
   \<and> march [(Fin 0, Fin (- 1), Fin 0)] 2 8 0 [(Fin 0, Fin 0, Fin 5)] = [(Fin 0, Fin 0, Fin 5)]
   \<and> march [(Fin 0, Fin (- 1), Fin 0)] 2 8 1 [(Fin 0, Fin 0, Fin 5)] = [(NaN, NaN, NaN)]
   \<and> fge (norm3 (Fin 0, Fin 5, Fin 0)) (Fin 4)
   \<and> map_sum id pos (visualize (init 1 0 0 8 (Fin 5) (Fin 0) (Fin 0)) 0 0 [])
       = Inr (Some [(Fin 0, Fin 5, Fin 0)])
   \<and> map_sum id pos (visualize (init 1 1 0 8 (Fin 5) (Fin 0) (Fin 0)) 0 0 [])
       = Inr (Some [(NaN, NaN, NaN)])"
proof -
  have a: "fge (norm3 (Fin 0, Fin 0, Fin 5)) (Fin 4)
   \<and> march [(Fin 0, Fin (- 1), Fin 0)] 2 8 0 [(Fin 0, Fin 0, Fin 5)] = [(Fin 0, Fin 0, Fin 5)]
   \<and> march [(Fin 0, Fin (- 1), Fin 0)] 2 8 1 [(Fin 0, Fin 0, Fin 5)] = [(NaN, NaN, NaN)]"
    by (simp add: norm3_axis_z march_step_def mand2_pointwise mand2_point_z5 ew2_def bc2_def vv2_def)
  have b: "fge (norm3 (Fin 0, Fin 5, Fin 0)) (Fin 4)"
    by (simp add: norm3_axis_y)
  have o: "ray_origin (init 1 n 0 8 (Fin 5) (Fin 0) (Fin 0)) = (Fin 0, Fin 5, Fin 0)" for n
    by (simp add: ray_origin_def init_def rotx_def rotz_def Let_def)
  obtain d0 where d0: "ray_dirs (init 1 0 0 8 (Fin 5) (Fin 0) (Fin 0)) = Inr [d0]"
    using single_ray_dirs [of "init 1 0 0 8 (Fin 5) (Fin 0) (Fin 0)"] by (auto simp: init_def)
  obtain d1 where d1: "ray_dirs (init 1 1 0 8 (Fin 5) (Fin 0) (Fin 0)) = Inr [d1]"
    using single_ray_dirs [of "init 1 1 0 8 (Fin 5) (Fin 0) (Fin 0)"] by (auto simp: init_def)
  have c: "map_sum id pos (visualize (init 1 0 0 8 (Fin 5) (Fin 0) (Fin 0)) 0 0 [])
       = Inr (Some [(Fin 0, Fin 5, Fin 0)])"
    unfolding visualize_eq [OF d0] o by (simp add: init_def)
  have s1: "march_step [d1] 0 8 [q] = [(NaN, NaN, NaN)]" for q
    using march_step_zip [of "[(q, d1)]" 0 8] by (simp add: ray_step_nan mand2_point_no_iterations)
  have d: "map_sum id pos (visualize (init 1 1 0 8 (Fin 5) (Fin 0) (Fin 0)) 0 0 [])
       = Inr (Some [(NaN, NaN, NaN)])"
    unfolding visualize_eq [OF d1] o by (simp add: init_def s1)
  from a b c d show ?thesis by blast
qed

subsection \<open>The marching loop\<close>

text \<open>
  C2 (as amended).  \<open>visualize\<close> applies the marching pass exactly \<open>nmarch\<close> times to the
  batch that starts at the common ray origin; there is no other exit from the loop.  In a
  pass, a ray whose position norm is below 4 has \<open>position += direction * |step|\<close> with
  \<open>step = mand2(position) * 0.4\<close>; a ray that is not below 4 keeps its position when its
  estimate and its direction are finite.
\<close>

theorem marching_loop:
  assumes "visualize s t0 t1 stamp = Inr s'" and "ray_dirs s = Inr dirs"
    and "length p = length dirs" and "i < length p"
  shows "pos s' = Some ((march_step dirs (order s) (power_m s) ^^ nat (nmarch s))
                         (replicate (length dirs) (ray_origin s)))
    \<and> (flt (norm3 (p ! i)) (Fin 4) \<longrightarrow>
         march_step dirs ord pw p ! i
           = vadd (p ! i) (vscale (dirs ! i) (fabs (fmul (mand2 p ord pw ! i) (Fin (2 / 5))))))
    \<and> (\<not> flt (norm3 (p ! i)) (Fin 4) \<and> is_fin (mand2 p ord pw ! i) \<and> fin3 (dirs ! i) \<longrightarrow>
         march_step dirs ord pw p ! i = p ! i)"
proof -
  have len: "length dirs = length p" using assms(3) by simp
  have a: "pos s' = Some ((march_step dirs (order s) (power_m s) ^^ nat (nmarch s))
                         (replicate (length dirs) (ray_origin s)))"
  proof -
    have "s' = s\<lparr>pos := Some (march dirs (order s) (power_m s) (nat (nmarch s))
                                  (replicate (length dirs) (ray_origin s))),
                  elapsed_time := Some (py_round (t1 - t0)),
                  fname := Some (stamp @ ''Mandelbulb.png'')\<rparr>"
      using assms(1) visualize_eq [OF assms(2), of t0 t1 stamp] by simp
    then show ?thesis by (simp add: march_funpow)
  qed
  have st: "march_step dirs ord pw p ! i = ray_step (dirs ! i) ord pw (p ! i)"
    using len assms(4) by (rule march_step_nth)
  have est: "mand2 p ord pw ! i = mand2_point (p ! i) ord pw"
    using assms(4) by (rule mand2_nth)
  have b: "flt (norm3 (p ! i)) (Fin 4) \<longrightarrow>
         march_step dirs ord pw p ! i
           = vadd (p ! i) (vscale (dirs ! i) (fabs (fmul (mand2 p ord pw ! i) (Fin (2 / 5)))))"
    by (simp add: st est ray_step_active)
  have c: "\<not> flt (norm3 (p ! i)) (Fin 4) \<and> is_fin (mand2 p ord pw ! i) \<and> fin3 (dirs ! i) \<longrightarrow>
         march_step dirs ord pw p ! i = p ! i"
    by (simp add: st est ray_step_frozen)
  from a b c show ?thesis by blast
qed

theorem marching_loop_witness:
  "\<exists>s' dirs. visualize (init 1 1 2 8 (Fin 5) (Fin 0) (Fin 0)) 0 1 [] = Inr s'
      \<and> ray_dirs (init 1 1 2 8 (Fin 5) (Fin 0) (Fin 0)) = Inr dirs
      \<and> length [(Fin 0, Fin 3, Fin 0)] = length dirs
      \<and> pos s' = Some ((march_step dirs 2 8 ^^ 1) (replicate (length dirs) (Fin 0, Fin 5, Fin 0)))
      \<and> flt (norm3 ([(Fin 0, Fin 3, Fin 0)] ! 0)) (Fin 4)
      \<and> march_step dirs 2 8 [(Fin 0, Fin 3, Fin 0)] ! 0
           = vadd (Fin 0, Fin 3, Fin 0)
               (vscale (dirs ! 0) (fabs (fmul (mand2 [(Fin 0, Fin 3, Fin 0)] 2 8 ! 0) (Fin (2 / 5)))))
      \<and> \<not> flt (norm3 ([(Fin 0, Fin 5, Fin 0)] ! 0)) (Fin 4)
      \<and> is_fin (mand2 [(Fin 0, Fin 5, Fin 0)] 2 8 ! 0) \<and> fin3 (dirs ! 0)
      \<and> march_step dirs 2 8 [(Fin 0, Fin 5, Fin 0)] ! 0 = (Fin 0, Fin 5, Fin 0)"
proof -
  let ?s = "init 1 1 2 8 (Fin 5) (Fin 0) (Fin 0)"
  have r: "0 \<le> res ?s" by (simp add: init_def)
  obtain dirs where d: "ray_dirs ?s = Inr dirs" "length dirs = nat (res ?s) * nat (res ?s)"
    using ray_dirs_ok [OF r] by blast
  obtain s' where v: "visualize ?s 0 1 [] = Inr s'"
    using visualize_ok [OF r] by blast
  have l1: "length dirs = 1" using d(2) by (simp add: init_def)
  have fd: "fin3 (dirs ! 0)"
    using ray_dirs_finite [OF d(1), of "dirs ! 0"] l1 by (simp add: init_def)
  have o: "ray_origin ?s = (Fin 0, Fin 5, Fin 0)"
    by (simp add: ray_origin_def init_def rotx_def rotz_def Let_def)
  have act: "flt (norm3 ([(Fin 0, Fin 3, Fin 0)] ! 0)) (Fin 4)"
    by (simp add: norm3_y3)
  have frz: "\<not> flt (norm3 ([(Fin 0, Fin 5, Fin 0)] ! 0)) (Fin 4)"
    by (simp add: norm3_axis_y)
  have est: "is_fin (mand2 [(Fin 0, Fin 5, Fin 0)] 2 8 ! 0)"
    by (simp add: mand2_pointwise mand2_point_y5)
  have w1: "length [(Fin 0, Fin 3, Fin 0)] = length dirs" "length [(Fin 0, Fin 5, Fin 0)] = length dirs"
    using l1 by simp_all
  have i: "0 < length [(Fin 0, Fin 3, Fin 0) :: vec3]" "0 < length [(Fin 0, Fin 5, Fin 0) :: vec3]"
    by simp_all
  note t1 = marching_loop [OF v d(1) w1(1) i(1), of 2 8]
  note t2 = marching_loop [OF v d(1) w1(2) i(2), of 2 8]
  have ini: "order ?s = 2" "power_m ?s = 8" "nat (nmarch ?s) = 1"
    by (simp_all add: init_def)
  have c1: "pos s' = Some ((march_step dirs 2 8 ^^ 1) (replicate (length dirs) (Fin 0, Fin 5, Fin 0)))"
    using t1 unfolding o ini by simp
  have c2: "march_step dirs 2 8 [(Fin 0, Fin 3, Fin 0)] ! 0
           = vadd (Fin 0, Fin 3, Fin 0)
               (vscale (dirs ! 0) (fabs (fmul (mand2 [(Fin 0, Fin 3, Fin 0)] 2 8 ! 0) (Fin (2 / 5)))))"
    using t1 act by simp
  have c3: "march_step dirs 2 8 [(Fin 0, Fin 5, Fin 0)] ! 0 = (Fin 0, Fin 5, Fin 0)"
    using t2 frz est fd by simp
  show ?thesis
    using v d(1) w1(1) c1 act c2 frz est fd c3 by blast
qed

text \<open>
  Without the condition on the estimate the last part fails: a ray at \<open>(0, 0, -6)\<close>, beyond
  the abort radius, has a NaN estimate, and one pass turns its position into NaN.
\<close>

theorem frozen_ray_updated:
  "\<not> flt (norm3 (Fin 0, Fin 0, Fin (- 6))) (Fin 4)
   \<and> march_step [(Fin 1, Fin 0, Fin 0)] 3 8 [(Fin 0, Fin 0, Fin (- 6))] = [(NaN, NaN, NaN)]"
  by (simp add: norm3_z6 march_step_def mand2_pointwise mand2_point_z6 ew2_def bc2_def vv2_def)

subsection \<open>The Mandelbulb estimator\<close>

text \<open>
  C3.  For every batch of points, \<open>mand2\<close> returns for each point \<open>p\<close> the value
  \<open>|0.5 * ln(r) * r / dr|\<close> of the state reached from \<open>(p, 1, 0)\<close> by exactly
  \<open>iterations\<close> passes of the polar power iteration, and a pass reads the point \<open>z\<close> in
  polar form with \<open>r = |z|\<close>, \<open>theta = arccos(z_z / r)\<close> and \<open>phi = arctan(z_y / z_x)\<close>,
  the arctangent of one argument.
\<close>

theorem mand2_polar_iteration:
  "mand2 ps n pw =
     map (\<lambda>p. case (point_step p pw ^^ nat n) (p, Fin 1, Fin 0) of
                 (z, dr, r) \<Rightarrow> fabs (fmul (fmul (Fin (1 / 2)) (flog r)) (fdiv r dr))) ps
   \<and> point_step p pw (z, dr, r0) =
       (let r = norm3 z;
            theta = farccos (fdiv (z_of z) r);
            phi = farctan (fdiv (y_of z) (x_of z));
            lt = of_mask (flt r bailout);
            ge = of_mask (fge r bailout)
        in (vadd (vscale (vadd (znew_of pw (r, theta, phi)) p) lt) (vscale z ge),
            fadd (fmul (drnew_of pw r dr) lt) (fmul dr ge),
            r))"
  by (simp add: mand2_pointwise mand2_point_def distance_of_def point_step_def polar_def Let_def)

subsection \<open>The bailout blend\<close>

text \<open>
  C4 (as amended).  In a pass of \<open>mand2\<close> on a batch, row \<open>i\<close> reads \<open>r = |z|\<close>.  When
  \<open>r < 1.5\<close> and the previous \<open>dr\<close> and \<open>z\<close> of the row are finite, the row gets
  \<open>dr = r^(power-1) * power * dr + 1\<close> and \<open>z = znew + pos\<close>.  When \<open>r \<ge> 1.5\<close> and the two
  candidate values of the row are finite, the row keeps its \<open>dr\<close> and its \<open>z\<close>, in this
  pass and in every later one.  The candidates are computed for every row and blended
  with the masks, \<open>new * (r < bailout) + old * (r >= bailout)\<close>.
\<close>

theorem bailout_blend:
  assumes "length z = length ps" and "length dr = length ps" and "length r0 = length ps"
    and "i < length ps"
  shows "case mand2_body ps pw (z, dr, r0) of (z', dr', r) \<Rightarrow>
           r ! i = norm3 (z ! i)
         \<and> (flt (r ! i) bailout \<and> is_fin (dr ! i) \<and> fin3 (z ! i) \<longrightarrow>
              dr' ! i = drnew_of pw (r ! i) (dr ! i)
            \<and> z' ! i = vadd (znew_of pw (polar (z ! i))) (ps ! i))
         \<and> (fge (r ! i) bailout \<and> is_fin (drnew_of pw (r ! i) (dr ! i))
              \<and> fin3 (vadd (znew_of pw (polar (z ! i))) (ps ! i)) \<longrightarrow>
              dr' ! i = dr ! i \<and> z' ! i = z ! i
            \<and> (\<forall>n. case mand2_loop ps pw (Suc n) (z, dr, r0) of (zn, drn, rn) \<Rightarrow>
                     zn ! i = z ! i \<and> drn ! i = dr ! i \<and> rn ! i = r ! i))"
proof -
  let ?step = "point_step (ps ! i) pw"
  let ?st = "(z ! i, dr ! i, r0 ! i)"
  have loop: "(fst (mand2_loop ps pw n (z, dr, r0)) ! i,
          fst (snd (mand2_loop ps pw n (z, dr, r0))) ! i,
          snd (snd (mand2_loop ps pw n (z, dr, r0))) ! i) = (?step ^^ n) ?st" for n
    using assms by (rule mand2_loop_nth)
  obtain z' dr' r where b: "mand2_body ps pw (z, dr, r0) = (z', dr', r)"
    by (cases "mand2_body ps pw (z, dr, r0)")
  have one: "(z' ! i, dr' ! i, r ! i) = ?step ?st"
    using loop [of "Suc 0"] b by simp
  have r: "r ! i = norm3 (z ! i)"
    using one point_step_radius [of "ps ! i" pw "z ! i" "dr ! i" "r0 ! i"]
    by (metis snd_conv)
  have below: "dr' ! i = drnew_of pw (r ! i) (dr ! i)
            \<and> z' ! i = vadd (znew_of pw (polar (z ! i))) (ps ! i)"
    if "flt (r ! i) bailout" "is_fin (dr ! i)" "fin3 (z ! i)"
    using one point_step_below [of "z ! i" "dr ! i" "ps ! i" pw "r0 ! i"] that r by simp
  have above: "dr' ! i = dr ! i \<and> z' ! i = z ! i
            \<and> (\<forall>n. case mand2_loop ps pw (Suc n) (z, dr, r0) of (zn, drn, rn) \<Rightarrow>
                     zn ! i = z ! i \<and> drn ! i = dr ! i \<and> rn ! i = r ! i)"
    if h: "fge (r ! i) bailout" "is_fin (drnew_of pw (r ! i) (dr ! i))"
       "fin3 (vadd (znew_of pw (polar (z ! i))) (ps ! i))"
  proof -
    have fx: "(?step ^^ Suc n) ?st = (z ! i, dr ! i, norm3 (z ! i))" for n
      using h r point_step_above_funpow [of "z ! i" pw "dr ! i" "ps ! i" n "r0 ! i"] by simp
    have "dr' ! i = dr ! i \<and> z' ! i = z ! i"
      using one fx [of 0] by simp
    moreover have "case mand2_loop ps pw (Suc n) (z, dr, r0) of (zn, drn, rn) \<Rightarrow>
                     zn ! i = z ! i \<and> drn ! i = dr ! i \<and> rn ! i = r ! i" for n
      using loop [of "Suc n"] fx [of n] r
      by (cases "mand2_loop ps pw (Suc n) (z, dr, r0)") simp
    ultimately show ?thesis by blast
  qed
  show ?thesis
    unfolding b using r below above by simp
qed

theorem bailout_blend_witness:
  "(case mand2_body [(Fin 0, Fin 1, Fin 0)] 8 ([(Fin 0, Fin 1, Fin 0)], [Fin 1], [Fin 0]) of
      (z', dr', r) \<Rightarrow>
        flt (r ! 0) bailout \<and> is_fin ([Fin 1] ! 0) \<and> fin3 ([(Fin 0, Fin 1, Fin 0)] ! 0)
      \<and> dr' ! 0 = Fin 9
      \<and> z' ! 0 = vadd (znew_of 8 (polar (Fin 0, Fin 1, Fin 0))) (Fin 0, Fin 1, Fin 0))
   \<and> (case mand2_body [(Fin 0, Fin 5, Fin 0)] 8 ([(Fin 0, Fin 5, Fin 0)], [Fin 1], [Fin 0]) of
      (z', dr', r) \<Rightarrow>
        fge (r ! 0) bailout \<and> is_fin (drnew_of 8 (r ! 0) ([Fin 1] ! 0))
      \<and> fin3 (vadd (znew_of 8 (polar ([(Fin 0, Fin 5, Fin 0)] ! 0))) ([(Fin 0, Fin 5, Fin 0)] ! 0))
      \<and> dr' ! 0 = Fin 1 \<and> z' ! 0 = (Fin 0, Fin 5, Fin 0)
      \<and> (case mand2_loop [(Fin 0, Fin 5, Fin 0)] 8 (Suc 4) ([(Fin 0, Fin 5, Fin 0)], [Fin 1], [Fin 0]) of
           (zn, drn, rn) \<Rightarrow> zn ! 0 = (Fin 0, Fin 5, Fin 0) \<and> drn ! 0 = Fin 1 \<and> rn ! 0 = Fin 5))"
proof -
  let ?a = "[(Fin 0, Fin 1, Fin 0)] :: vec3 list" and ?b = "[(Fin 0, Fin 5, Fin 0)] :: vec3 list"
  have la: "length ?a = length ?a" "length [Fin 1 :: fl] = length ?a" "length [Fin 0 :: fl] = length ?a"
      "0 < length ?a"
    by simp_all
  have lb: "length ?b = length ?b" "length [Fin 1 :: fl] = length ?b" "length [Fin 0 :: fl] = length ?b"
      "0 < length ?b"
    by simp_all
  note ta = bailout_blend [OF la, of 8]
  note tb = bailout_blend [OF lb, of 8]
  have ha: "flt (norm3 (Fin 0, Fin 1, Fin 0)) bailout" "is_fin ([Fin 1] ! 0)" "fin3 (?a ! 0)"
    by (simp_all add: norm3_y1 bailout_def fin3_def)
  have hb: "fge (norm3 (Fin 0, Fin 5, Fin 0)) bailout"
      "is_fin (drnew_of 8 (norm3 (Fin 0, Fin 5, Fin 0)) ([Fin 1] ! 0))"
      "fin3 (vadd (znew_of 8 (polar (?b ! 0))) (?b ! 0))"
    by (simp_all add: norm3_axis_y bailout_def drnew_of_def fpower_def znew_of_def polar_def
        vadd_def fin3_def Let_def)
  have da: "drnew_of 8 (Fin 1) (Fin 1) = Fin 9"
    by (simp add: drnew_of_def fpower_def)
  have A: "case mand2_body ?a 8 (?a, [Fin 1], [Fin 0]) of
      (z', dr', r) \<Rightarrow>
        flt (r ! 0) bailout \<and> is_fin ([Fin 1] ! 0) \<and> fin3 (?a ! 0)
      \<and> dr' ! 0 = Fin 9
      \<and> z' ! 0 = vadd (znew_of 8 (polar (Fin 0, Fin 1, Fin 0))) (Fin 0, Fin 1, Fin 0)"
    using ta ha da by (cases "mand2_body ?a 8 (?a, [Fin 1], [Fin 0])") (simp add: norm3_y1)
  have B: "case mand2_body ?b 8 (?b, [Fin 1], [Fin 0]) of
      (z', dr', r) \<Rightarrow>
        fge (r ! 0) bailout \<and> is_fin (drnew_of 8 (r ! 0) ([Fin 1] ! 0))
      \<and> fin3 (vadd (znew_of 8 (polar (?b ! 0))) (?b ! 0))
      \<and> dr' ! 0 = Fin 1 \<and> z' ! 0 = (Fin 0, Fin 5, Fin 0)
      \<and> (case mand2_loop ?b 8 (Suc 4) (?b, [Fin 1], [Fin 0]) of
           (zn, drn, rn) \<Rightarrow> zn ! 0 = (Fin 0, Fin 5, Fin 0) \<and> drn ! 0 = Fin 1 \<and> rn ! 0 = Fin 5)"
  proof (cases "mand2_body ?b 8 (?b, [Fin 1], [Fin 0])")
    case (fields z' dr' r)
    have r: "r ! 0 = Fin 5" using tb fields by (simp add: norm3_axis_y)
    have pre: "fge (r ! 0) bailout \<and> is_fin (drnew_of 8 (r ! 0) ([Fin 1] ! 0))
      \<and> fin3 (vadd (znew_of 8 (polar (?b ! 0))) (?b ! 0))"
      using hb r by (simp add: norm3_axis_y)
    have tb': "r ! 0 = norm3 (?b ! 0)
         \<and> (flt (r ! 0) bailout \<and> is_fin ([Fin 1] ! 0) \<and> fin3 (?b ! 0) \<longrightarrow>
              dr' ! 0 = drnew_of 8 (r ! 0) ([Fin 1] ! 0)
            \<and> z' ! 0 = vadd (znew_of 8 (polar (?b ! 0))) (?b ! 0))
         \<and> (fge (r ! 0) bailout \<and> is_fin (drnew_of 8 (r ! 0) ([Fin 1] ! 0))
              \<and> fin3 (vadd (znew_of 8 (polar (?b ! 0))) (?b ! 0)) \<longrightarrow>
              dr' ! 0 = [Fin 1] ! 0 \<and> z' ! 0 = ?b ! 0
            \<and> (\<forall>n. case mand2_loop ?b 8 (Suc n) (?b, [Fin 1], [Fin 0]) of (zn, drn, rn) \<Rightarrow>
                     zn ! 0 = ?b ! 0 \<and> drn ! 0 = [Fin 1] ! 0 \<and> rn ! 0 = r ! 0))"
      using tb unfolding fields prod.case .
    note q = conjunct2 [OF conjunct2 [OF tb'], THEN mp, OF pre]
    from q have "\<forall>n. case mand2_loop ?b 8 (Suc n) (?b, [Fin 1], [Fin 0]) of (zn, drn, rn) \<Rightarrow>
                     zn ! 0 = ?b ! 0 \<and> drn ! 0 = [Fin 1] ! 0 \<and> rn ! 0 = r ! 0"
      by (elim conjE)
    then have "case mand2_loop ?b 8 (Suc 4) (?b, [Fin 1], [Fin 0]) of (zn, drn, rn) \<Rightarrow>
                     zn ! 0 = ?b ! 0 \<and> drn ! 0 = [Fin 1] ! 0 \<and> rn ! 0 = r ! 0"
      by (rule spec)
    then have "case mand2_loop ?b 8 (Suc 4) (?b, [Fin 1], [Fin 0]) of (zn, drn, rn) \<Rightarrow>
                     zn ! 0 = (Fin 0, Fin 5, Fin 0) \<and> drn ! 0 = Fin 1 \<and> rn ! 0 = Fin 5"
      unfolding r by (simp only: nth_Cons_0)
    moreover have "dr' ! 0 = Fin 1 \<and> z' ! 0 = (Fin 0, Fin 5, Fin 0)"
      using q by (simp only: nth_Cons_0)
    ultimately have "dr' ! 0 = Fin 1 \<and> z' ! 0 = (Fin 0, Fin 5, Fin 0)
            \<and> (case mand2_loop ?b 8 (Suc 4) (?b, [Fin 1], [Fin 0]) of (zn, drn, rn) \<Rightarrow>
                     zn ! 0 = (Fin 0, Fin 5, Fin 0) \<and> drn ! 0 = Fin 1 \<and> rn ! 0 = Fin 5)"
      by blast
    then show ?thesis using pre unfolding fields by (simp only: prod.case)
  qed
  from A B show ?thesis by blast
qed

text \<open>
  Without the condition on the candidates the second part fails: at \<open>(0, 0, 2)\<close> the radius
  is 2, the candidate \<open>znew\<close> has NaN in its first two components (\<open>arctan(0/0)\<close>), and
  \<open>NaN * 0 + z\<close> is NaN, so the row's \<open>z\<close> changes; with two iterations \<open>mand2\<close> returns NaN
  for this point.
\<close>

theorem bailout_blend_nan:
  "mand2_body [(Fin 0, Fin 0, Fin 2)] 8 ([(Fin 0, Fin 0, Fin 2)], [Fin 1], [Fin 0])
     = ([(NaN, NaN, Fin 2)], [Fin 1], [Fin 2])
   \<and> fge (Fin 2) bailout
   \<and> mand2 [(Fin 0, Fin 0, Fin 2)] 2 8 = [NaN]"
  by (simp add: mand2_body_def Let_def ew2_def bc2_def vv2_def vstackT_def norm3_z2 bailout_def
      of_mask_def fpower_def mand2_pointwise mand2_point_z2)

subsection \<open>The depth map\<close>

text \<open>
  C5.  The depth of a ray is to be the distance between the ray's final position and the
  camera position from which the rays start, the rotated one.  \<open>render\<close> subtracts
  \<open>self.campos\<close>, which \<open>visualize\<close> never updates: the unrotated \<open>[0, proximity, 0]\<close>.
  With \<open>res = 3\<close>, \<open>proximity = 5\<close> and \<open>ele = pi\<close> the rays start at \<open>(0, -5, 0)\<close>, beyond
  the abort radius, and stay there; their distance from the camera is 0, and the depth
  map that \<open>render\<close> produces is 10 in every pixel.
\<close>

theorem depth_from_unrotated_camera:
  "ray_origin (init 3 200 6 8 (Fin 5) (Fin pi) (Fin 0)) = (Fin 0, Fin (- 5), Fin 0)
   \<and> map_sum id pos (visualize (init 3 200 6 8 (Fin 5) (Fin pi) (Fin 0)) 0 0 [])
       = Inr (Some (replicate 9 (Fin 0, Fin (- 5), Fin 0)))
   \<and> depth_of (Fin 0, Fin (- 5), Fin 0) (Fin 0, Fin (- 5), Fin 0) = Fin 0
   \<and> (case visualize (init 3 200 6 8 (Fin 5) (Fin pi) (Fin 0)) 0 0 [] of
         Inl e \<Rightarrow> Inl e
       | Inr s \<Rightarrow> map_sum id snd (render_depth s))
       = Inr (replicate 3 (replicate 3 (Fin 10)))"
proof -
  let ?s = "init 3 200 6 8 (Fin 5) (Fin pi) (Fin 0)"
  let ?q = "(Fin 0, Fin (- 5), Fin 0)"
  have o: "ray_origin ?s = ?q"
    by (simp add: ray_origin_def init_def rotx_def rotz_def Let_def)
  have r: "0 \<le> res ?s" by (simp add: init_def)
  obtain ds where d: "ray_dirs ?s = Inr ds" "length ds = nat (res ?s) * nat (res ?s)"
    using ray_dirs_ok [OF r] by blast
  have l: "length ds = 9" using d(2) by (simp add: init_def)
  have fd: "\<forall>d \<in> set ds. fin3 d"
    using ray_dirs_finite [OF d(1)] by (simp add: init_def)
  have m: "march ds 6 8 200 (replicate (length ds) ?q) = replicate (length ds) ?q"
    using fd by (rule march_all_frozen) (simp_all add: norm3_ym5 mand2_point_ym5)
  have v: "visualize ?s 0 0 [] =
             Inr (?s\<lparr>pos := Some (replicate 9 ?q), elapsed_time := Some (py_round (0 - 0)),
                      fname := Some ([] @ ''Mandelbulb.png'')\<rparr>)"
    using visualize_eq [OF d(1), of 0 0 "[]"] m unfolding o l by (simp add: init_def)
  have dz: "depth_of ?q ?q = Fin 0"
    by (simp add: depth_of_def fsub_def dot_ones_def Let_def)
  have dd: "depth_of (Fin 0, Fin 5, Fin 0) ?q = Fin 10"
    by (simp add: depth_of_def fsub_def dot_ones_def Let_def sqrt_100)
  have rd: "map_sum id snd (render_depth (?s\<lparr>pos := Some (replicate 9 ?q),
                      elapsed_time := Some (py_round (0 - 0)),
                      fname := Some ([] @ ''Mandelbulb.png'')\<rparr>))
            = Inr (replicate 3 (replicate 3 (Fin 10)))"
    by (simp add: render_depth_def init_def dd Let_def reshape2_3)
  show ?thesis
    unfolding o v using dz rd by simp
qed

subsection \<open>The orientation of the camera\<close>

text \<open>
  C6 (as amended).  \<open>visualize\<close> turns every normalised grid direction \<open>v\<close> into
  \<open>v \<cdot> Rx(pi/2) \<cdot> Rx(ele) \<cdot> Rz(azi)\<close>, and starts every ray at
  \<open>campos \<cdot> Rx(ele) \<cdot> Rz(azi)\<close>: the camera position takes the elevation and the azimuth
  rotation of the directions, and not the first rotation by a right angle, which only
  turns the viewing axis of the grid towards the origin.
\<close>

theorem camera_orientation:
  assumes "visualize s t0 t1 stamp = Inr s'"
  shows "\<exists>grid dirs. grid_dirs (res s) = Inr grid
      \<and> dirs = map (\<lambda>v. vecmat (vecmat (vecmat v (rotx (Fin (pi / 2)))) (rotx (ele s))) (rotz (azi s))) grid
      \<and> ray_dirs s = Inr dirs
      \<and> pos s' = Some (march dirs (order s) (power_m s) (nat (nmarch s))
                         (replicate (length dirs)
                            (vecmat (vecmat (campos s) (rotx (ele s))) (rotz (azi s)))))"
proof -
  have "0 \<le> res s"
    using assms visualize_neg [of s t0 t1 stamp] by (cases "0 \<le> res s") simp_all
  then obtain dirs where d: "ray_dirs s = Inr dirs"
    using ray_dirs_ok by blast
  obtain grid where g: "grid_dirs (res s) = Inr grid"
     "dirs = map (\<lambda>v. vecmat (vecmat (vecmat v (rotx (Fin (pi / 2)))) (rotx (ele s))) (rotz (azi s))) grid"
    using ray_dirs_grid [OF d] by blast
  have o: "ray_origin s = vecmat (vecmat (campos s) (rotx (ele s))) (rotz (azi s))"
    by (simp add: ray_origin_def Let_def)
  have "s' = s\<lparr>pos := Some (march dirs (order s) (power_m s) (nat (nmarch s))
                                  (replicate (length dirs) (ray_origin s))),
                  elapsed_time := Some (py_round (t1 - t0)),
                  fname := Some (stamp @ ''Mandelbulb.png'')\<rparr>"
    using assms visualize_eq [OF d, of t0 t1 stamp] by simp
  then have "pos s' = Some (march dirs (order s) (power_m s) (nat (nmarch s))
                         (replicate (length dirs)
                            (vecmat (vecmat (campos s) (rotx (ele s))) (rotz (azi s)))))"
    by (simp add: o)
  then show ?thesis using g d by blast
qed

theorem camera_orientation_witness:
  "\<exists>s' grid dirs. visualize (init 1 0 6 8 (Fin 3) (Fin pi) (Fin 0)) 0 0 [] = Inr s'
      \<and> grid_dirs 1 = Inr grid
      \<and> dirs = map (\<lambda>v. vecmat (vecmat (vecmat v (rotx (Fin (pi / 2)))) (rotx (Fin pi))) (rotz (Fin 0))) grid
      \<and> ray_dirs (init 1 0 6 8 (Fin 3) (Fin pi) (Fin 0)) = Inr dirs
      \<and> pos s' = Some (replicate (length dirs) (Fin 0, Fin (- 3), Fin 0))"
proof -
  let ?s = "init 1 0 6 8 (Fin 3) (Fin pi) (Fin 0)"
  have "0 \<le> res ?s" by (simp add: init_def)
  then obtain s' where v: "visualize ?s 0 0 [] = Inr s'"
    using visualize_ok by blast
  have c: "vecmat (vecmat (campos ?s) (rotx (Fin pi))) (rotz (Fin 0)) = (Fin 0, Fin (- 3), Fin 0)"
    by (simp add: init_def rotx_def rotz_def Let_def)
  have f: "res ?s = 1" "ele ?s = Fin pi" "azi ?s = Fin 0" "nat (nmarch ?s) = 0"
    by (simp_all add: init_def)
  show ?thesis
    using camera_orientation [OF v] v unfolding f by (auto simp: c)
qed

text \<open>
  With \<open>ele = azi = 0\<close> and \<open>proximity = 3\<close> the rays start at \<open>(0, 3, 0)\<close>; the three
  rotations of the directions would put the camera at \<open>(0, 0, 3)\<close>.
\<close>

theorem camera_not_turned_by_right_angle:
  "ray_origin (init 1 0 6 8 (Fin 3) (Fin 0) (Fin 0)) = (Fin 0, Fin 3, Fin 0)
   \<and> vecmat (vecmat (vecmat (campos (init 1 0 6 8 (Fin 3) (Fin 0) (Fin 0))) (rotx (Fin (pi / 2))))
               (rotx (Fin 0))) (rotz (Fin 0)) = (Fin 0, Fin 0, Fin 3)"
  by (simp add: ray_origin_def init_def rotx_def rotz_def Let_def)

subsection \<open>Estimates that are not finite\<close>

text \<open>
  C7 (as amended).  \<open>mand2\<close> returns one value for every row of every batch; a division by
  zero or a NaN is a value, not an exception.  When the value for a ray is NaN or an
  infinity, the marching pass does not hold the ray: all three coordinates of its position
  become NaN or infinite in that pass, and all three become NaN when the value is NaN or
  the ray is not below the abort radius.
\<close>

theorem nonfinite_estimate_spreads:
  assumes "length dirs = length p" and "i < length p"
    and "\<not> is_fin (mand2 p ord pw ! i)"
  shows "length (mand2 p ord pw) = length p
     \<and> \<not> is_fin (x_of (march_step dirs ord pw p ! i))
     \<and> \<not> is_fin (y_of (march_step dirs ord pw p ! i))
     \<and> \<not> is_fin (z_of (march_step dirs ord pw p ! i))
     \<and> (mand2 p ord pw ! i = NaN \<or> \<not> flt (norm3 (p ! i)) (Fin 4) \<longrightarrow>
          march_step dirs ord pw p ! i = (NaN, NaN, NaN))"
proof -
  have st: "march_step dirs ord pw p ! i = ray_step (dirs ! i) ord pw (p ! i)"
    using assms(1,2) by (rule march_step_nth)
  have est: "mand2 p ord pw ! i = mand2_point (p ! i) ord pw"
    using assms(2) by (rule mand2_nth)
  have nf: "\<not> is_fin (mand2_point (p ! i) ord pw)"
    using assms(3) est by simp
  have a: "length (mand2 p ord pw) = length p"
    by (simp add: mand2_pointwise)
  have b: "\<not> is_fin (x_of (march_step dirs ord pw p ! i))
     \<and> \<not> is_fin (y_of (march_step dirs ord pw p ! i))
     \<and> \<not> is_fin (z_of (march_step dirs ord pw p ! i))"
    unfolding st using nf by (rule ray_step_nonfin)
  have c: "march_step dirs ord pw p ! i = (NaN, NaN, NaN)"
    if "mand2 p ord pw ! i = NaN \<or> \<not> flt (norm3 (p ! i)) (Fin 4)"
    unfolding st using that nf est by (intro ray_step_nan) auto
  from a b c show ?thesis by blast
qed

theorem nonfinite_estimate_spreads_witness:
  "\<not> is_fin (mand2 [(Fin 0, Fin 0, Fin 0)] 6 8 ! 0)
   \<and> length (mand2 [(Fin 0, Fin 0, Fin 0)] 6 8) = 1
   \<and> mand2 [(Fin 0, Fin 0, Fin 0)] 6 8 ! 0 = NaN
   \<and> march_step [(Fin 1, Fin 0, Fin 0)] 6 8 [(Fin 0, Fin 0, Fin 0)] ! 0 = (NaN, NaN, NaN)"
proof -
  let ?d = "[(Fin 1, Fin 0, Fin 0)] :: vec3 list" and ?p = "[(Fin 0, Fin 0, Fin 0)] :: vec3 list"
  have h1: "length ?d = length ?p" and h2: "0 < length ?p" by simp_all
  have e: "mand2 ?p 6 8 ! 0 = NaN"
    by (simp add: mand2_pointwise mand2_point_origin)
  have h3: "\<not> is_fin (mand2 ?p 6 8 ! 0)"
    by (simp add: e)
  from nonfinite_estimate_spreads [OF h1 h2 h3] e h3 show ?thesis by simp
qed

text \<open>
  With \<open>proximity = 0\<close> the rays start at the origin, where the estimate is NaN
  (\<open>arccos(0/0)\<close>); after one marching iteration the position is NaN, not the origin.
\<close>

theorem nan_estimate_moves_ray:
  "map_sum id pos (visualize (init 1 0 6 8 (Fin 0) (Fin 0) (Fin 0)) 0 0 [])
     = Inr (Some [(Fin 0, Fin 0, Fin 0)])
   \<and> mand2 [(Fin 0, Fin 0, Fin 0)] 6 8 = [NaN]
   \<and> map_sum id pos (visualize (init 1 1 6 8 (Fin 0) (Fin 0) (Fin 0)) 0 0 [])
     = Inr (Some [(NaN, NaN, NaN)])"
proof -
  let ?q = "(Fin 0, Fin 0, Fin 0)"
  have o: "ray_origin (init 1 n 6 8 (Fin 0) (Fin 0) (Fin 0)) = ?q" for n
    by (simp add: ray_origin_def init_def rotx_def rotz_def Let_def)
  have dl: "\<exists>d. ray_dirs (init 1 n 6 8 (Fin 0) (Fin 0) (Fin 0)) = Inr [d]" for n
  proof -
    have "0 \<le> res (init 1 n 6 8 (Fin 0) (Fin 0) (Fin 0))" by (simp add: init_def)
    then obtain ds where d: "ray_dirs (init 1 n 6 8 (Fin 0) (Fin 0) (Fin 0)) = Inr ds"
        "length ds = nat (res (init 1 n 6 8 (Fin 0) (Fin 0) (Fin 0)))
                      * nat (res (init 1 n 6 8 (Fin 0) (Fin 0) (Fin 0)))"
      using ray_dirs_ok by blast
    have "length ds = 1" using d(2) by (simp add: init_def)
    then obtain x where "ds = [x]" by (cases ds) auto
    then show ?thesis using d(1) by blast
  qed
  obtain d0 where d0: "ray_dirs (init 1 0 6 8 (Fin 0) (Fin 0) (Fin 0)) = Inr [d0]"
    using dl by blast
  obtain d1 where d1: "ray_dirs (init 1 1 6 8 (Fin 0) (Fin 0) (Fin 0)) = Inr [d1]"
    using dl by blast
  have a: "map_sum id pos (visualize (init 1 0 6 8 (Fin 0) (Fin 0) (Fin 0)) 0 0 [])
             = Inr (Some [?q])"
    unfolding visualize_eq [OF d0] o by (simp add: init_def)
  have b: "mand2 [?q] 6 8 = [NaN]"
    by (simp add: mand2_pointwise mand2_point_origin)
  have s1: "march_step [d1] 6 8 [?q] = [(NaN, NaN, NaN)]"
    using march_step_zip [of "[(?q, d1)]" 6 8] by (simp add: ray_step_nan mand2_point_origin)
  have c: "map_sum id pos (visualize (init 1 1 6 8 (Fin 0) (Fin 0) (Fin 0)) 0 0 [])
             = Inr (Some [(NaN, NaN, NaN)])"
    unfolding visualize_eq [OF d1] o by (simp add: init_def s1)
  from a b c show ?thesis by blast
qed

subsection \<open>The sphere estimator\<close>


subsection \<open>Configurations that are not checked\<close>

text \<open>
  C9 (as amended).  Neither \<open>__init__\<close> nor \<open>visualize\<close> checks the configuration.  A
  negative \<open>res\<close> makes \<open>visualize\<close> fail at once, with the \<open>ValueError\<close> that
  \<open>np.linspace\<close> raises for a negative number of samples.  Every other configuration,
  \<open>res = 0\<close> and \<open>order = 0\<close> included, runs to the end without an error and leaves a batch
  of \<open>res * res\<close> positions.
\<close>

theorem configuration_not_validated:
  "(res s < 0 \<longrightarrow> visualize s t0 t1 stamp = Inl ValueError)
   \<and> (0 \<le> res s \<longrightarrow>
        (\<exists>s' p. visualize s t0 t1 stamp = Inr s' \<and> pos s' = Some p
                 \<and> length p = nat (res s) * nat (res s)))"
  using visualize_neg [of s t0 t1 stamp] visualize_batch [of s t0 t1 stamp] by blast

theorem configuration_not_validated_witness:
  "res (init (- 1) 200 6 8 (Fin 3) (Fin 0) (Fin 0)) < 0
   \<and> visualize (init (- 1) 200 6 8 (Fin 3) (Fin 0) (Fin 0)) 0 0 [] = Inl ValueError
   \<and> 0 \<le> res (init 0 200 0 8 (Fin 3) (Fin 0) (Fin 0))
   \<and> (\<exists>s'. visualize (init 0 200 0 8 (Fin 3) (Fin 0) (Fin 0)) 0 0 [] = Inr s' \<and> pos s' = Some [])"
proof -
  have n: "res (init (- 1) 200 6 8 (Fin 3) (Fin 0) (Fin 0)) < 0"
    by (simp add: init_def)
  have z: "0 \<le> res (init 0 200 0 8 (Fin 3) (Fin 0) (Fin 0))"
    "nat (res (init 0 200 0 8 (Fin 3) (Fin 0) (Fin 0))) = 0"
    by (simp_all add: init_def)
  have a: "visualize (init (- 1) 200 6 8 (Fin 3) (Fin 0) (Fin 0)) 0 0 [] = Inl ValueError"
    using configuration_not_validated [of "init (- 1) 200 6 8 (Fin 3) (Fin 0) (Fin 0)" 0 0 "[]"] n
    by blast
  have "\<exists>s' p. visualize (init 0 200 0 8 (Fin 3) (Fin 0) (Fin 0)) 0 0 [] = Inr s'
           \<and> pos s' = Some p \<and> length p = 0"
    using configuration_not_validated [of "init 0 200 0 8 (Fin 3) (Fin 0) (Fin 0)" 0 0 "[]"] z
    by simp
  then have b: "\<exists>s'. visualize (init 0 200 0 8 (Fin 3) (Fin 0) (Fin 0)) 0 0 [] = Inr s'
           \<and> pos s' = Some []"
    by auto
  from n a z(1) b show ?thesis by blast
qed

text \<open>
  \<open>res = 0\<close> returns an empty batch, and \<open>order = 0\<close> a batch of NaN positions (the
  estimate without a pass is \<open>|0.5 * ln(0) * 0|\<close>): both are silent.
\<close>

theorem degenerate_configuration_runs:
  "map_sum id pos (visualize (init 0 200 6 8 (Fin 3) (Fin 0) (Fin 0)) 0 0 []) = Inr (Some [])
   \<and> map_sum id pos (visualize (init 1 1 0 8 (Fin 3) (Fin 0) (Fin 0)) 0 0 [])
       = Inr (Some [(NaN, NaN, NaN)])"
proof -
  let ?a = "init 0 200 6 8 (Fin 3) (Fin 0) (Fin 0)"
  let ?b = "init 1 1 0 8 (Fin 3) (Fin 0) (Fin 0)"
  have "0 \<le> res ?a" by (simp add: init_def)
  then obtain s' p where v: "visualize ?a 0 0 [] = Inr s'" "pos s' = Some p"
      "length p = nat (res ?a) * nat (res ?a)"
    using visualize_batch by blast
  have "p = []" using v(3) by (simp add: init_def)
  then have a: "map_sum id pos (visualize ?a 0 0 []) = Inr (Some [])"
    using v(1,2) by simp
  have "0 \<le> res ?b" by (simp add: init_def)
  then obtain ds where d: "ray_dirs ?b = Inr ds" "length ds = nat (res ?b) * nat (res ?b)"
    using ray_dirs_ok by blast
  have "length ds = 1" using d(2) by (simp add: init_def)
  then obtain d1 where ds: "ds = [d1]" by (cases ds) auto
  have s1: "march_step [d1] 0 8 [q] = [(NaN, NaN, NaN)]" for q
    using march_step_zip [of "[(q, d1)]" 0 8] by (simp add: ray_step_nan mand2_point_no_iterations)
  have b: "map_sum id pos (visualize ?b 0 0 []) = Inr (Some [(NaN, NaN, NaN)])"
    unfolding visualize_eq [OF d(1)] ds by (simp add: init_def s1)
  from a b show ?thesis by blast
qed

subsection \<open>What \<open>visualize\<close> writes\<close>

text \<open>
  C10.  A call of \<open>visualize\<close> that returns leaves \<open>res\<close>, \<open>nmarch\<close>, \<open>order\<close>, \<open>power\<close>,
  \<open>proximity\<close>, \<open>ele\<close>, \<open>azi\<close> and \<open>campos\<close> as they were, and \<open>dis\<close> too: the object after
  the call is the object before it with new \<open>pos\<close>, \<open>elapsed_time\<close> and \<open>fname\<close>.  For an
  object as \<open>__init__\<close> builds it, \<open>campos\<close> is still the unrotated \<open>[0, proximity, 0]\<close>.
\<close>

theorem visualize_frame:
  assumes "visualize s t0 t1 stamp = Inr s'"
  shows "res s' = res s \<and> nmarch s' = nmarch s \<and> order s' = order s \<and> power_m s' = power_m s
     \<and> proximity s' = proximity s \<and> ele s' = ele s \<and> azi s' = azi s \<and> campos s' = campos s
     \<and> dis s' = dis s
     \<and> s' = s\<lparr>pos := pos s', elapsed_time := elapsed_time s', fname := fname s'\<rparr>
     \<and> (s = init r n ord pw prox e a \<longrightarrow> campos s' = (Fin 0, prox, Fin 0))"
proof -
  have "0 \<le> res s"
    using assms visualize_neg [of s t0 t1 stamp] by (cases "0 \<le> res s") simp_all
  then obtain ds where d: "ray_dirs s = Inr ds"
    using ray_dirs_ok by blast
  show ?thesis
    using assms unfolding visualize_eq [OF d] by (auto simp: init_def)
qed

theorem visualize_frame_witness:
  "\<exists>s'. visualize (init 1 0 6 8 (Fin 3) (Fin pi) (Fin 0)) 0 0 [] = Inr s'
     \<and> res s' = 1 \<and> nmarch s' = 0 \<and> order s' = 6 \<and> power_m s' = 8 \<and> proximity s' = Fin 3
     \<and> ele s' = Fin pi \<and> azi s' = Fin 0 \<and> campos s' = (Fin 0, Fin 3, Fin 0) \<and> dis s' = None
     \<and> pos s' = Some [(Fin 0, Fin (- 3), Fin 0)]"
proof -
  let ?s = "init 1 0 6 8 (Fin 3) (Fin pi) (Fin 0)"
  have r: "0 \<le> res ?s" by (simp add: init_def)
  obtain s' where v: "visualize ?s 0 0 [] = Inr s'"
    using visualize_ok [OF r] by blast
  obtain ds where d: "ray_dirs ?s = Inr ds" "length ds = nat (res ?s) * nat (res ?s)"
    using ray_dirs_ok [OF r] by blast
  have l: "length ds = 1" using d(2) by (simp add: init_def)
  have o: "ray_origin ?s = (Fin 0, Fin (- 3), Fin 0)"
    by (simp add: ray_origin_def init_def rotx_def rotz_def Let_def)
  have p: "pos s' = Some [(Fin 0, Fin (- 3), Fin 0)]"
    using v unfolding visualize_eq [OF d(1)] o l by (auto simp: init_def)
  have f: "res ?s = 1" "nmarch ?s = 0" "order ?s = 6" "power_m ?s = 8" "proximity ?s = Fin 3"
      "ele ?s = Fin pi" "azi ?s = Fin 0" "dis ?s = None"
    by (simp_all add: init_def)
  from visualize_frame [OF v, of 1 0 6 8 "Fin 3" "Fin pi" "Fin 0"] f p v
  show ?thesis by auto
qed

end
